theory Spec2Isabelle
  imports Complex_Main "HOL-Library.Sublist"
begin

section \<open>Python values and dictionaries\<close>

text \<open>
  The integration is Python. The values that flow through it unchanged (attribute values
  of status objects, results of remote commands) are modelled by \<open>pyval\<close>; a Python
  \<open>float\<close> is only passed along, compared with \<open>-129\<close> or produced by \<open>float(int)\<close>, and is
  modelled by a real number. A \<open>dict\<close> with string keys is an association list in
  insertion order: \<open>d.get(k)\<close> is \<open>map_of d k\<close>, iteration follows the list.
\<close>

datatype pyval =
    VNone
  | VBool bool
  | VInt int
  | VFloat real
  | VStr string
  | VDict "(string \<times> pyval) list"
  | VObj string

type_synonym 'v dict = "(string \<times> 'v) list"

text \<open>Truth value testing, as \<open>if x:\<close> does it; an opaque object is true.\<close>

fun truthy :: "pyval \<Rightarrow> bool" where
  "truthy VNone = False"
| "truthy (VBool b) = b"
| "truthy (VInt i) = (i \<noteq> 0)"
| "truthy (VFloat r) = (r \<noteq> 0)"
| "truthy (VStr s) = (s \<noteq> [])"
| "truthy (VDict d) = (d \<noteq> [])"
| "truthy (VObj c) = True"

text \<open>\<open>d.get(k, {})\<close> on a dictionary of dictionaries.\<close>

definition get_or_empty :: "('v dict) dict \<Rightarrow> string \<Rightarrow> 'v dict" where
  "get_or_empty d k = (case map_of d k of None \<Rightarrow> [] | Some m \<Rightarrow> m)"

text \<open>\<open>d.get(k)\<close> where the values are \<open>pyval\<close>s: a missing key reads as \<open>None\<close>.\<close>

definition get_val :: "pyval dict \<Rightarrow> string \<Rightarrow> pyval" where
  "get_val d k = (case map_of d k of None \<Rightarrow> VNone | Some v \<Rightarrow> v)"

text \<open>
  \<open>hint in field\<close> on strings: \<open>hint\<close> occurs in \<open>field\<close> as a contiguous substring.
\<close>

fun str_contains :: "string \<Rightarrow> string \<Rightarrow> bool" where
  "str_contains [] hint = (hint = [])"
| "str_contains (c # cs) hint = (prefix hint (c # cs) \<or> str_contains cs hint)"

section \<open>The coordinator's snapshot\<close>

text \<open>
  \<open>HvacStatus\<close> belongs to the vehicle API library; the record has the attributes that
  climate.py reads. Every other status object (vehicle, realtime, energy, charging) is
  only handed to \<open>expand_metrics\<close>, \<open>extract_raw\<close> or \<open>getattr(_, "temp_in_car", None)\<close>,
  and is modelled by its class name and its attributes.
\<close>

record HvacStatus =
  is_ac_on :: bool
  interior_temp_available :: bool
  temp_in_car :: pyval
  main_setting_temp_new :: "real option"
  main_setting_temp :: "int option"
  temp_out_car :: pyval
  front_defrost_status :: pyval
  steering_wheel_heat_state :: pyval
  main_seat_heat_state :: pyval
  main_seat_ventilation_state :: pyval
  copilot_seat_heat_state :: pyval
  copilot_seat_ventilation_state :: pyval

datatype status = Hvac HvacStatus | Object string "pyval dict"

text \<open>
  \<open>coordinator.data\<close>: a dictionary from \<open>"vehicles"\<close>, \<open>"realtime"\<close>, \<open>"energy"\<close>,
  \<open>"hvac"\<close>, \<open>"charging"\<close> to dictionaries from VIN to status object. Any key may be
  missing.
\<close>

type_synonym snapshot = "(status dict) dict"

text \<open>\<open>getattr(obj, "temp_in_car", None)\<close>.\<close>

fun getattr_temp_in_car :: "status \<Rightarrow> pyval" where
  "getattr_temp_in_car (Hvac h) = temp_in_car h"
| "getattr_temp_in_car (Object c attrs) = get_val attrs ''temp_in_car''"

text \<open>\<open>v == n\<close> for an integer literal \<open>n\<close>: numbers compare by value, \<open>True\<close> is 1.\<close>

fun py_eq_int :: "pyval \<Rightarrow> int \<Rightarrow> bool" where
  "py_eq_int (VInt i) n = (i = n)"
| "py_eq_int (VFloat r) n = (r = of_int n)"
| "py_eq_int (VBool b) n = ((if b then 1 else 0) = n)"
| "py_eq_int v n = False"

section \<open>Exceptions, the API client and the missing module\<close>

text \<open>
  An instance of Python's \<open>Exception\<close>: the host framework's \<open>HomeAssistantError\<close>, or
  any other class with its message. \<open>str_exn\<close> is \<open>str(exc)\<close>.
\<close>

datatype exn = HomeAssistantError string | PyException string string

fun str_exn :: "exn \<Rightarrow> string" where
  "str_exn (HomeAssistantError msg) = msg"
| "str_exn (PyException cls msg) = msg"

text \<open>
  The client of the vehicle API: \<open>getattr(client, name, None)\<close> is \<open>client name\<close>, and a
  command coroutine takes the VIN and returns a result or raises.
\<close>

type_synonym client = "string \<Rightarrow> (string \<Rightarrow> exn + pyval) option"

type_synonym callback = "client \<Rightarrow> exn + pyval"

text \<open>\<open>client.name(vin)\<close>, an attribute access that raises when the attribute is missing.\<close>

definition client_invoke :: "client \<Rightarrow> string \<Rightarrow> string \<Rightarrow> exn + pyval" where
  "client_invoke cl nm vin =
     (case cl nm of
        None \<Rightarrow> Inl (PyException ''AttributeError'' nm)
      | Some m \<Rightarrow> m vin)"

text \<open>
  coordinator.py is not among the sources. What sensor.py, climate.py and switch.py
  import from it is taken as a parameter: \<open>expand_metrics\<close> and \<open>extract_raw\<close> on a status
  object, and the two operations of \<open>BydApi\<close> on an API state \<open>'api\<close> of any type:
  \<open>async_call(callback, vin=, command=)\<close>, which returns or raises and may change the API
  state, and the lookup \<open>get_last_remote_result(vin, command)\<close>.
\<close>

record 'api coordinator_module =
  expand_metrics :: "status \<Rightarrow> pyval dict"
  extract_raw :: "status \<Rightarrow> pyval"
  async_call :: "callback \<Rightarrow> string \<Rightarrow> string \<Rightarrow> 'api \<Rightarrow> (exn + pyval) \<times> 'api"
  get_last_remote_result :: "'api \<Rightarrow> string \<Rightarrow> string \<Rightarrow> pyval"

section \<open>The world an entity lives in\<close>

text \<open>
  An entity holds references to a coordinator and (for command entities) to the API
  object, and has fields of its own. A method of an entity is a function from the world
  before the call to its result and the world after it. The trace records what the
  entity asks of its collaborators: one \<open>ApiCall\<close> for every \<open>await self._api.async_call(...)\<close>,
  one \<open>WriteHaState\<close> for every \<open>self.async_write_ha_state()\<close>.
\<close>

datatype event = ApiCall string string | WriteHaState

datatype coordinator_ref = Coordinator | GpsCoordinator

record ('self, 'api) world =
  coordinator_data :: snapshot
  gps_coordinator_data :: snapshot
  api :: 'api
  self :: 'self
  trace :: "event list"

definition data_of :: "('self, 'api) world \<Rightarrow> coordinator_ref \<Rightarrow> snapshot" where
  "data_of w r = (case r of Coordinator \<Rightarrow> coordinator_data w | GpsCoordinator \<Rightarrow> gps_coordinator_data w)"

text \<open>\<open>await self._api.async_call(cb, vin=vin, command=cmd)\<close>.\<close>

definition api_async_call ::
  "'api coordinator_module \<Rightarrow> callback \<Rightarrow> string \<Rightarrow> string \<Rightarrow> ('self, 'api) world
     \<Rightarrow> (exn + pyval) \<times> ('self, 'api) world" where
  "api_async_call cm cb vin cmd w =
     (case async_call cm cb vin cmd (api w) of
        (r, a) \<Rightarrow> (r, w\<lparr>api := a, trace := trace w @ [ApiCall vin cmd]\<rparr>))"

text \<open>\<open>self.async_write_ha_state()\<close>.\<close>

definition async_write_ha_state :: "('self, 'api) world \<Rightarrow> ('self, 'api) world" where
  "async_write_ha_state w = w\<lparr>trace := trace w @ [WriteHaState]\<rparr>"

definition api_calls :: "event list \<Rightarrow> event list" where
  "api_calls tr = filter (\<lambda>e. case e of ApiCall v c \<Rightarrow> True | WriteHaState \<Rightarrow> False) tr"

section \<open>climate.py\<close>

datatype HVACMode = OFF | HEAT | COOL | HEAT_COOL | AUTO | DRY | FAN_ONLY

text \<open>
  The fields \<open>BydClimate.__init__\<close> sets. The display name (\<open>_attr_name\<close>) and
  \<open>device_info\<close> are built from \<open>get_vehicle_display\<close> and the vehicle's brand and model;
  no property below reads them, and they are left out here and in the switch and sensor
  classes.
\<close>

record BydClimate =
  climate_vin :: string
  climate_vehicle :: status
  climate_unique_id :: string
  climate_last_mode :: HVACMode
  climate_last_command :: "string option"

definition BydClimate_init :: "string \<Rightarrow> status \<Rightarrow> BydClimate" where
  "BydClimate_init vin vehicle =
     \<lparr> climate_vin = vin,
       climate_vehicle = vehicle,
       climate_unique_id = vin @ ''_climate'',
       climate_last_mode = OFF,
       climate_last_command = None \<rparr>"

text \<open>\<open>async_setup_entry\<close> of climate.py: the entities handed to \<open>async_add_entities\<close>.\<close>

definition climate_async_setup_entry :: "snapshot \<Rightarrow> BydClimate list" where
  "climate_async_setup_entry data =
     map (\<lambda>(vin, vehicle). BydClimate_init vin vehicle) (get_or_empty data ''vehicles'')"

text \<open>\<open>BydClimate._get_hvac_status\<close>, with its \<open>isinstance\<close> test.\<close>

definition get_hvac_status :: "(BydClimate, 'api) world \<Rightarrow> HvacStatus option" where
  "get_hvac_status w =
     (let hvac_map = get_or_empty (coordinator_data w) ''hvac''
      in case map_of hvac_map (climate_vin (self w)) of
           Some (Hvac h) \<Rightarrow> Some h
         | Some (Object c attrs) \<Rightarrow> None
         | None \<Rightarrow> None)"

definition hvac_mode :: "(BydClimate, 'api) world \<Rightarrow> HVACMode \<times> (BydClimate, 'api) world" where
  "hvac_mode w =
     (case get_hvac_status w of
        Some hvac \<Rightarrow> (if is_ac_on hvac then HEAT_COOL else OFF, w)
      | None \<Rightarrow> (climate_last_mode (self w), w))"

text \<open>
  \<open>BydClimate.current_temperature\<close>: the HVAC status when it has an interior temperature,
  otherwise the realtime data; \<open>realtime_temperature\<close> is the part after the first
  \<open>return\<close>.
\<close>

definition realtime_temperature :: "(BydClimate, 'api) world \<Rightarrow> pyval" where
  "realtime_temperature w =
     (let realtime_map = get_or_empty (coordinator_data w) ''realtime''
      in case map_of realtime_map (climate_vin (self w)) of
           Some realtime \<Rightarrow>
             (let temp = getattr_temp_in_car realtime
              in if temp \<noteq> VNone \<and> \<not> py_eq_int temp (- 129) then temp else VNone)
         | None \<Rightarrow> VNone)"

definition current_temperature :: "(BydClimate, 'api) world \<Rightarrow> pyval \<times> (BydClimate, 'api) world" where
  "current_temperature w =
     (case get_hvac_status w of
        Some hvac \<Rightarrow>
          if interior_temp_available hvac then (temp_in_car hvac, w)
          else (realtime_temperature w, w)
      | None \<Rightarrow> (realtime_temperature w, w))"

definition target_temperature :: "(BydClimate, 'api) world \<Rightarrow> pyval \<times> (BydClimate, 'api) world" where
  "target_temperature w =
     (case get_hvac_status w of
        Some hvac \<Rightarrow>
          (case main_setting_temp_new hvac of
             Some t \<Rightarrow> (VFloat t, w)
           | None \<Rightarrow>
               (case main_setting_temp hvac of
                  Some i \<Rightarrow> (VFloat (of_int i), w)
                | None \<Rightarrow> (VNone, w)))
      | None \<Rightarrow> (VNone, w))"

text \<open>The inner coroutine \<open>_call\<close> of \<open>async_set_hvac_mode\<close>.\<close>

definition climate_call :: "HVACMode \<Rightarrow> string \<Rightarrow> callback" where
  "climate_call mode vin cl =
     (if mode = OFF then client_invoke cl ''stop_climate'' vin
      else client_invoke cl ''start_climate'' vin)"

text \<open>
  \<open>BydClimate.async_set_hvac_mode\<close>. The assignment to \<open>_last_command\<close> is the first
  statement of the \<open>try\<close> block, before the call; the assignment to \<open>_last_mode\<close> and the
  state write come after the \<open>try\<close> statement and are skipped when the handler raises.
\<close>

definition async_set_hvac_mode ::
  "'api coordinator_module \<Rightarrow> HVACMode \<Rightarrow> (BydClimate, 'api) world
     \<Rightarrow> (exn + unit) \<times> (BydClimate, 'api) world" where
  "async_set_hvac_mode cm mode w =
     (let cmd = (if mode = OFF then ''stop_climate'' else ''start_climate'');
          w1 = w\<lparr>self := (self w)\<lparr>climate_last_command := Some cmd\<rparr>\<rparr>;
          vin = climate_vin (self w1)
      in case api_async_call cm (climate_call mode vin) vin cmd w1 of
           (Inl exc, w2) \<Rightarrow> (Inl (HomeAssistantError (str_exn exc)), w2)
         | (Inr res, w2) \<Rightarrow>
             (Inr (), async_write_ha_state (w2\<lparr>self := (self w2)\<lparr>climate_last_mode := mode\<rparr>\<rparr>)))"

text \<open>
  \<open>BydClimate.extra_state_attributes\<close>. The dictionary \<open>attrs\<close> is local to the call; only
  what it maps each key to is observed, so it is a map here.
\<close>

definition climate_extra_state_attributes ::
  "'api coordinator_module \<Rightarrow> (BydClimate, 'api) world
     \<Rightarrow> (string \<rightharpoonup> pyval) \<times> (BydClimate, 'api) world" where
  "climate_extra_state_attributes cm w =
     (let vin = climate_vin (self w);
          attrs0 = [''vin'' \<mapsto> VStr vin];
          attrs1 =
            (case get_hvac_status w of
               Some hvac \<Rightarrow>
                 attrs0(''temp_out_car'' \<mapsto> temp_out_car hvac,
                        ''front_defrost'' \<mapsto> front_defrost_status hvac,
                        ''steering_wheel_heat'' \<mapsto> steering_wheel_heat_state hvac,
                        ''main_seat_heat'' \<mapsto> main_seat_heat_state hvac,
                        ''main_seat_ventilation'' \<mapsto> main_seat_ventilation_state hvac,
                        ''copilot_seat_heat'' \<mapsto> copilot_seat_heat_state hvac,
                        ''copilot_seat_ventilation'' \<mapsto> copilot_seat_ventilation_state hvac)
             | None \<Rightarrow> attrs0);
          attrs2 =
            (case climate_last_command (self w) of
               None \<Rightarrow> attrs1
             | Some cmd \<Rightarrow>
                 if cmd = [] then attrs1
                 else
                   (let attrs1' = attrs1(''last_remote_command'' \<mapsto> VStr cmd);
                        last_result = get_last_remote_result cm (api w) vin cmd
                    in if truthy last_result
                       then attrs1'(''last_remote_result'' \<mapsto> last_result)
                       else attrs1'))
      in (attrs2, w))"

section \<open>switch.py\<close>

record BydMomentarySwitch =
  switch_vin :: string
  switch_vehicle :: status
  switch_command :: string
  switch_unique_id :: string

definition BydMomentarySwitch_init :: "string \<Rightarrow> status \<Rightarrow> string \<Rightarrow> BydMomentarySwitch" where
  "BydMomentarySwitch_init vin vehicle command =
     \<lparr> switch_vin = vin,
       switch_vehicle = vehicle,
       switch_command = command,
       switch_unique_id = vin @ ''_'' @ command \<rparr>"

text \<open>\<open>async_setup_entry\<close> of switch.py: four appends for every item of the vehicle map.\<close>

definition switch_async_setup_entry :: "snapshot \<Rightarrow> BydMomentarySwitch list" where
  "switch_async_setup_entry data =
     concat (map (\<lambda>(vin, vehicle).
        [ BydMomentarySwitch_init vin vehicle ''flash_lights'',
          BydMomentarySwitch_init vin vehicle ''honk_horn'',
          BydMomentarySwitch_init vin vehicle ''open_trunk'',
          BydMomentarySwitch_init vin vehicle ''close_windows'' ])
      (get_or_empty data ''vehicles''))"

definition is_on :: "(BydMomentarySwitch, 'api) world \<Rightarrow> bool \<times> (BydMomentarySwitch, 'api) world" where
  "is_on w = (False, w)"

text \<open>
  The inner coroutine \<open>_call\<close> of \<open>async_turn_on\<close>: a command the client does not have
  raises \<open>HomeAssistantError\<close> inside the callback.
\<close>

definition switch_call :: "string \<Rightarrow> string \<Rightarrow> callback" where
  "switch_call command vin cl =
     (case cl command of
        None \<Rightarrow> Inl (HomeAssistantError (''Unknown command: '' @ command))
      | Some m \<Rightarrow> m vin)"

definition async_turn_on ::
  "'api coordinator_module \<Rightarrow> (BydMomentarySwitch, 'api) world
     \<Rightarrow> (exn + unit) \<times> (BydMomentarySwitch, 'api) world" where
  "async_turn_on cm w =
     (let vin = switch_vin (self w); command = switch_command (self w)
      in case api_async_call cm (switch_call command vin) vin command w of
           (Inl exc, w1) \<Rightarrow> (Inl (HomeAssistantError (str_exn exc)), w1)
         | (Inr res, w1) \<Rightarrow> (Inr (), async_write_ha_state w1))"

definition async_turn_off ::
  "(BydMomentarySwitch, 'api) world \<Rightarrow> (exn + unit) \<times> (BydMomentarySwitch, 'api) world" where
  "async_turn_off w = (Inr (), async_write_ha_state w)"

definition switch_extra_state_attributes ::
  "'api coordinator_module \<Rightarrow> (BydMomentarySwitch, 'api) world
     \<Rightarrow> (string \<rightharpoonup> pyval) \<times> (BydMomentarySwitch, 'api) world" where
  "switch_extra_state_attributes cm w =
     (let vin = switch_vin (self w); command = switch_command (self w);
          attrs = [''vin'' \<mapsto> VStr vin, ''command'' \<mapsto> VStr command];
          last_result = get_last_remote_result cm (api w) vin command
      in if truthy last_result
         then (attrs(''last_remote_result'' \<mapsto> last_result), w)
         else (attrs, w))"

section \<open>sensor.py\<close>

datatype SensorDeviceClass = BATTERY | DISTANCE | SPEED | TEMPERATURE | PRESSURE

datatype SensorStateClass = MEASUREMENT

text \<open>Constants of the host framework.\<close>

definition PERCENTAGE :: string where
  "PERCENTAGE = ''%''"

definition KILOMETERS :: string where
  "KILOMETERS = ''km''"

definition KILOMETERS_PER_HOUR :: string where
  "KILOMETERS_PER_HOUR = ''km/h''"

definition CELSIUS :: string where
  "CELSIUS = [CHR 0xC2, CHR 0xB0, CHR ''C'']"

definition BAR :: string where
  "BAR = ''bar''"

text \<open>The frozen dataclass \<open>BydSensorDescription\<close>.\<close>

datatype BydSensorDescription =
  BydSensorDescription
    (desc_key: string)
    (desc_name: string)
    (desc_source_key: string)
    (desc_category: string)
    (desc_unit: "string option")
    (desc_device_class: "SensorDeviceClass option")
    (desc_state_class: "SensorStateClass option")

definition EXPLICIT_SENSORS :: "BydSensorDescription list" where
  "EXPLICIT_SENSORS =
    [ BydSensorDescription ''elec_percent'' ''Battery'' ''realtime'' ''realtime''
        (Some PERCENTAGE) (Some BATTERY) (Some MEASUREMENT),
      BydSensorDescription ''endurance_mileage'' ''Range'' ''realtime'' ''realtime''
        (Some KILOMETERS) (Some DISTANCE) (Some MEASUREMENT),
      BydSensorDescription ''total_mileage'' ''Odometer'' ''realtime'' ''realtime''
        (Some KILOMETERS) (Some DISTANCE) (Some MEASUREMENT),
      BydSensorDescription ''speed'' ''Speed'' ''realtime'' ''realtime''
        (Some KILOMETERS_PER_HOUR) (Some SPEED) (Some MEASUREMENT),
      BydSensorDescription ''temp_in_car'' ''Cabin temperature'' ''realtime'' ''realtime''
        (Some CELSIUS) (Some TEMPERATURE) (Some MEASUREMENT),
      BydSensorDescription ''left_front_tire_pressure'' ''Left front tire pressure''
        ''realtime'' ''realtime'' (Some BAR) (Some PRESSURE) (Some MEASUREMENT),
      BydSensorDescription ''right_front_tire_pressure'' ''Right front tire pressure''
        ''realtime'' ''realtime'' (Some BAR) (Some PRESSURE) (Some MEASUREMENT),
      BydSensorDescription ''left_rear_tire_pressure'' ''Left rear tire pressure''
        ''realtime'' ''realtime'' (Some BAR) (Some PRESSURE) (Some MEASUREMENT),
      BydSensorDescription ''right_rear_tire_pressure'' ''Right rear tire pressure''
        ''realtime'' ''realtime'' (Some BAR) (Some PRESSURE) (Some MEASUREMENT),
      BydSensorDescription ''total_energy'' ''Total energy'' ''energy'' ''energy''
        None None None,
      BydSensorDescription ''avg_energy_consumption'' ''Average energy consumption''
        ''energy'' ''energy'' None None None,
      BydSensorDescription ''electricity_consumption'' ''Electricity consumption''
        ''energy'' ''energy'' None None None,
      BydSensorDescription ''fuel_consumption'' ''Fuel consumption'' ''energy'' ''energy''
        None None None,
      BydSensorDescription ''soc'' ''Charging SOC'' ''charging'' ''charging''
        (Some PERCENTAGE) (Some BATTERY) (Some MEASUREMENT),
      BydSensorDescription ''charging_state'' ''Charging state'' ''charging'' ''charging''
        None None None,
      BydSensorDescription ''connect_state'' ''Charger connection'' ''charging'' ''charging''
        None None None,
      BydSensorDescription ''ac_switch'' ''AC switch'' ''hvac'' ''hvac''
        None None None,
      BydSensorDescription ''temp_out_car'' ''Exterior temperature'' ''hvac'' ''hvac''
        (Some CELSIUS) (Some TEMPERATURE) (Some MEASUREMENT) ]"

text \<open>
  \<open>EXPLICIT_FIELDS_BY_SOURCE\<close>: for each source, the set comprehension over
  \<open>EXPLICIT_SENSORS\<close>; the empty set for \<open>"vehicle"\<close>.
\<close>

definition explicit_keys_of :: "string \<Rightarrow> string set" where
  "explicit_keys_of src =
     set (map desc_key (filter (\<lambda>d. desc_source_key d = src) EXPLICIT_SENSORS))"

definition EXPLICIT_FIELDS_BY_SOURCE :: "(string set) dict" where
  "EXPLICIT_FIELDS_BY_SOURCE =
    [ (''realtime'', explicit_keys_of ''realtime''),
      (''energy'', explicit_keys_of ''energy''),
      (''hvac'', explicit_keys_of ''hvac''),
      (''charging'', explicit_keys_of ''charging''),
      (''vehicle'', {}) ]"

text \<open>\<open>EXPLICIT_FIELDS_BY_SOURCE.get(source_key, set())\<close>.\<close>

definition explicit_fields :: "string \<Rightarrow> string set" where
  "explicit_fields source_key =
     (case map_of EXPLICIT_FIELDS_BY_SOURCE source_key of None \<Rightarrow> {} | Some s \<Rightarrow> s)"

record BydTelemetrySensor =
  telemetry_coordinator :: coordinator_ref
  telemetry_vin :: string
  telemetry_vehicle :: status
  entity_description :: BydSensorDescription
  telemetry_unique_id :: string
  telemetry_native_unit_of_measurement :: "string option"
  telemetry_device_class :: "SensorDeviceClass option"
  telemetry_state_class :: "SensorStateClass option"

definition BydTelemetrySensor_init ::
  "coordinator_ref \<Rightarrow> string \<Rightarrow> status \<Rightarrow> BydSensorDescription \<Rightarrow> BydTelemetrySensor" where
  "BydTelemetrySensor_init coordinator vin vehicle description =
     \<lparr> telemetry_coordinator = coordinator,
       telemetry_vin = vin,
       telemetry_vehicle = vehicle,
       entity_description = description,
       telemetry_unique_id = vin @ ''_'' @ desc_source_key description @ ''_'' @ desc_key description,
       telemetry_native_unit_of_measurement = desc_unit description,
       telemetry_device_class = desc_device_class description,
       telemetry_state_class = desc_state_class description \<rparr>"

record BydMetricSensor =
  metric_coordinator :: coordinator_ref
  metric_vin :: string
  metric_vehicle :: status
  metric_category :: string
  metric_field :: string
  metric_source_key :: string
  metric_unique_id :: string

definition BydMetricSensor_init ::
  "coordinator_ref \<Rightarrow> string \<Rightarrow> status \<Rightarrow> string \<Rightarrow> string \<Rightarrow> string \<Rightarrow> BydMetricSensor" where
  "BydMetricSensor_init coordinator vin vehicle category field source_key =
     \<lparr> metric_coordinator = coordinator,
       metric_vin = vin,
       metric_vehicle = vehicle,
       metric_category = category,
       metric_field = field,
       metric_source_key = source_key,
       metric_unique_id = vin @ ''_'' @ category @ ''_'' @ field \<rparr>"

datatype SensorEntity = Telemetry BydTelemetrySensor | Metric BydMetricSensor

text \<open>
  \<open>expand_metrics(source.get(vin)) if source.get(vin) is not None else {}\<close>, as setup and
  both \<open>native_value\<close> properties compute it.
\<close>

definition metrics_of :: "'api coordinator_module \<Rightarrow> status dict \<Rightarrow> string \<Rightarrow> pyval dict" where
  "metrics_of cm source vin =
     (case map_of source vin of None \<Rightarrow> [] | Some obj \<Rightarrow> expand_metrics cm obj)"

text \<open>\<open>coordinator if source_key != "gps" else gps_coordinator\<close>.\<close>

definition active_coordinator :: "string \<Rightarrow> coordinator_ref" where
  "active_coordinator source_key = (if source_key \<noteq> ''gps'' then Coordinator else GpsCoordinator)"

text \<open>The first inner loop of setup: one \<open>BydTelemetrySensor\<close> for each description.\<close>

definition explicit_entities :: "string \<Rightarrow> status \<Rightarrow> SensorEntity list" where
  "explicit_entities vin vehicle =
     map (\<lambda>description.
            Telemetry (BydTelemetrySensor_init
              (active_coordinator (desc_source_key description)) vin vehicle description))
         EXPLICIT_SENSORS"

text \<open>
  The body of the second inner loop for one \<open>(category, source_key, source)\<close>: the fields
  of the metrics in order, those in \<open>EXPLICIT_FIELDS_BY_SOURCE\<close> skipped by \<open>continue\<close>.
\<close>

definition dynamic_entities ::
  "'api coordinator_module \<Rightarrow> string \<Rightarrow> status \<Rightarrow> string \<times> string \<times> status dict
     \<Rightarrow> SensorEntity list" where
  "dynamic_entities cm vin vehicle src =
     (case src of (category, source_key, source) \<Rightarrow>
        map (\<lambda>field.
               Metric (BydMetricSensor_init (active_coordinator source_key)
                 vin vehicle category field source_key))
            (filter (\<lambda>field. field \<notin> explicit_fields source_key)
               (map fst (metrics_of cm source vin))))"

text \<open>The five sources the second inner loop goes through.\<close>

definition sources :: "snapshot \<Rightarrow> (string \<times> string \<times> status dict) list" where
  "sources data =
    [ (''vehicle'', ''vehicle'', get_or_empty data ''vehicles''),
      (''realtime'', ''realtime'', get_or_empty data ''realtime''),
      (''energy'', ''energy'', get_or_empty data ''energy''),
      (''hvac'', ''hvac'', get_or_empty data ''hvac''),
      (''charging'', ''charging'', get_or_empty data ''charging'') ]"

text \<open>\<open>async_setup_entry\<close> of sensor.py.\<close>

definition sensor_async_setup_entry :: "'api coordinator_module \<Rightarrow> snapshot \<Rightarrow> SensorEntity list" where
  "sensor_async_setup_entry cm data =
     concat (map (\<lambda>(vin, vehicle).
        explicit_entities vin vehicle @
        concat (map (dynamic_entities cm vin vehicle) (sources data)))
      (get_or_empty data ''vehicles''))"

text \<open>The \<open>source\<close> both sensor classes read: \<open>"vehicles"\<close> for the source key \<open>"vehicle"\<close>.\<close>

definition source_of :: "snapshot \<Rightarrow> string \<Rightarrow> status dict" where
  "source_of data source_key =
     (if source_key = ''vehicle'' then get_or_empty data ''vehicles''
      else get_or_empty data source_key)"

definition telemetry_native_value ::
  "'api coordinator_module \<Rightarrow> (BydTelemetrySensor, 'api) world
     \<Rightarrow> pyval \<times> (BydTelemetrySensor, 'api) world" where
  "telemetry_native_value cm w =
     (let d = entity_description (self w);
          source = source_of (data_of w (telemetry_coordinator (self w))) (desc_source_key d);
          metrics = metrics_of cm source (telemetry_vin (self w))
      in (get_val metrics (desc_key d), w))"

definition telemetry_extra_state_attributes ::
  "(BydTelemetrySensor, 'api) world \<Rightarrow> (string \<rightharpoonup> pyval) \<times> (BydTelemetrySensor, 'api) world" where
  "telemetry_extra_state_attributes w =
     ([ ''vin'' \<mapsto> VStr (telemetry_vin (self w)),
        ''category'' \<mapsto> VStr (desc_category (entity_description (self w))),
        ''field'' \<mapsto> VStr (desc_key (entity_description (self w))) ], w)"

definition metric_native_value ::
  "'api coordinator_module \<Rightarrow> (BydMetricSensor, 'api) world
     \<Rightarrow> pyval \<times> (BydMetricSensor, 'api) world" where
  "metric_native_value cm w =
     (let source = source_of (data_of w (metric_coordinator (self w))) (metric_source_key (self w));
          metrics = metrics_of cm source (metric_vin (self w))
      in (get_val metrics (metric_field (self w)), w))"

definition metric_extra_state_attributes ::
  "'api coordinator_module \<Rightarrow> (BydMetricSensor, 'api) world
     \<Rightarrow> (string \<rightharpoonup> pyval) \<times> (BydMetricSensor, 'api) world" where
  "metric_extra_state_attributes cm w =
     (let source = source_of (data_of w (metric_coordinator (self w))) (metric_source_key (self w));
          raw = (case map_of source (metric_vin (self w)) of
                   None \<Rightarrow> VNone
                 | Some obj \<Rightarrow> extract_raw cm obj);
          attrs = [ ''vin'' \<mapsto> VStr (metric_vin (self w)),
                    ''category'' \<mapsto> VStr (metric_category (self w)),
                    ''field'' \<mapsto> VStr (metric_field (self w)) ]
      in if truthy raw then (attrs(''raw'' \<mapsto> raw), w) else (attrs, w))"

section \<open>sensor.py: unit hints\<close>


definition UNIT_HINTS :: "string dict" where
  "UNIT_HINTS =
    [ (''percent'', PERCENTAGE),
      (''mileage'', ''km''),
      (''endurance'', ''km''),
      (''speed'', ''km/h''),
      (''temp'', ''C''),
      (''pressure'', ''bar''),
      (''direction'', ''deg'') ]"

text \<open>
  The loop of \<open>BydMetricSensor.native_unit_of_measurement\<close>:
  \<open>for hint, unit in _UNIT_HINTS.items(): if hint in self._field: return unit\<close>,
  then \<open>return None\<close>.
\<close>

fun first_hint_unit :: "string dict \<Rightarrow> string \<Rightarrow> string option" where
  "first_hint_unit [] field = None"
| "first_hint_unit ((hint, u) # rest) field =
     (if str_contains field hint then Some u else first_hint_unit rest field)"

definition native_unit_of_measurement ::
  "(BydMetricSensor, 'api) world \<Rightarrow> string option \<times> (BydMetricSensor, 'api) world" where
  "native_unit_of_measurement w = (first_hint_unit UNIT_HINTS (metric_field (self w)), w)"

section \<open>What the three platforms register\<close>

text \<open>The VIN and the \<open>unique_id\<close> (\<open>_attr_unique_id\<close>) of a sensor entity of either class.\<close>

definition sensor_vin :: "SensorEntity \<Rightarrow> string" where
  "sensor_vin e = (case e of Telemetry t \<Rightarrow> telemetry_vin t | Metric m \<Rightarrow> metric_vin m)"

definition sensor_unique_id :: "SensorEntity \<Rightarrow> string" where
  "sensor_unique_id e =
     (case e of Telemetry t \<Rightarrow> telemetry_unique_id t | Metric m \<Rightarrow> metric_unique_id m)"

text \<open>
  The \<open>unique_id\<close>s of all entities one setup pass of the climate, switch and sensor
  platforms creates from a snapshot.
\<close>

definition all_unique_ids :: "'api coordinator_module \<Rightarrow> snapshot \<Rightarrow> string list" where
  "all_unique_ids cm data =
     map climate_unique_id (climate_async_setup_entry data) @
     map switch_unique_id (switch_async_setup_entry data) @
     map sensor_unique_id (sensor_async_setup_entry cm data)"

section \<open>An example installation\<close>

text \<open>
  A small instance of the missing module, for evaluating the entities on concrete
  inputs. The API state is the log of results, newest first. The client knows
  \<open>start_climate\<close>, \<open>flash_lights\<close> and \<open>honk_horn\<close>, which succeed, and \<open>open_trunk\<close>,
  which raises; it has neither \<open>stop_climate\<close> nor \<open>close_windows\<close>.
\<close>

definition example_client :: client where
  "example_client nm =
     (if nm \<in> {''start_climate'', ''flash_lights'', ''honk_horn''}
      then Some (\<lambda>vin. Inr (VDict [(''success'', VBool True)]))
      else if nm = ''open_trunk''
      then Some (\<lambda>vin. Inl (PyException ''BydRemoteControlError'' ''timeout''))
      else None)"

definition example_module :: "((string \<times> string \<times> pyval) list) coordinator_module" where
  "example_module =
     \<lparr> expand_metrics = (\<lambda>obj. case obj of Hvac h \<Rightarrow> [] | Object c attrs \<Rightarrow> attrs),
       extract_raw = (\<lambda>obj. case obj of Hvac h \<Rightarrow> VNone | Object c attrs \<Rightarrow> VDict attrs),
       async_call = (\<lambda>cb vin cmd results.
          case cb example_client of
            Inl exc \<Rightarrow> (Inl exc, results)
          | Inr res \<Rightarrow> (Inr res, (vin, cmd, res) # results)),
       get_last_remote_result = (\<lambda>results vin cmd.
          case map_of results vin of
            None \<Rightarrow> VNone
          | Some (c, res) \<Rightarrow> if c = cmd then res else VNone) \<rparr>"

definition example_vehicle :: status where
  "example_vehicle = Object ''Vehicle'' [(''model_name'', VStr ''Seal'')]"

definition example_world :: "'self \<Rightarrow> ('self, (string \<times> string \<times> pyval) list) world" where
  "example_world e =
     \<lparr> coordinator_data = [(''vehicles'', [(''LGX1'', example_vehicle)])],
       gps_coordinator_data = [],
       api = [],
       self = e,
       trace = [] \<rparr>"

text \<open>
  A snapshot with realtime data for the vehicle: one field with an explicit sensor, one
  without.
\<close>

definition example_snapshot :: snapshot where
  "example_snapshot =
     [ (''vehicles'', [(''LGX1'', example_vehicle)]),
       (''realtime'', [(''LGX1'', Object ''VehicleRealtimeData''
                          [(''elec_percent'', VInt 80), (''door_lock'', VInt 1)])]) ]"

text \<open>
  A snapshot with two vehicles, where one VIN is the other followed by \<open>_hvac\<close>, and
  where the status found under \<open>hvac\<close> has a field named \<open>climate\<close>.
\<close>

definition underscore_snapshot :: snapshot where
  "underscore_snapshot =
     [ (''vehicles'', [(''A'', example_vehicle), (''A_hvac'', example_vehicle)]),
       (''hvac'', [(''A'', Object ''Status'' [(''climate'', VInt 1)])]) ]"

section \<open>Substring test\<close>

lemma str_contains_iff:
  "str_contains field hint \<longleftrightarrow> (\<exists>ps ss. field = ps @ hint @ ss)"
proof (induction field)
  case Nil
  then show ?case by auto
next
  case (Cons c cs)
  show ?case
  proof
    assume "str_contains (c # cs) hint"
    then consider "prefix hint (c # cs)" | "str_contains cs hint" by auto
    then show "\<exists>ps ss. c # cs = ps @ hint @ ss"
    proof cases
      case 1
      then obtain ss where "c # cs = hint @ ss" by (auto simp: prefix_def)
      then have "c # cs = [] @ hint @ ss" by simp
      then show ?thesis by blast
    next
      case 2
      with Cons.IH obtain ps ss where "cs = ps @ hint @ ss" by blast
      then have "c # cs = (c # ps) @ hint @ ss" by simp
      then show ?thesis by blast
    qed
  next
    assume "\<exists>ps ss. c # cs = ps @ hint @ ss"
    then obtain ps ss where eq: "c # cs = ps @ hint @ ss" by blast
    show "str_contains (c # cs) hint"
    proof (cases ps)
      case Nil
      with eq have "prefix hint (c # cs)" by (simp add: prefix_def)
      then show ?thesis by simp
    next
      case (Cons p ps')
      with eq have "cs = ps' @ hint @ ss" by simp
      with Cons.IH have "str_contains cs hint" by blast
      then show ?thesis by simp
    qed
  qed
qed

lemma first_hint_unit_None:
  "first_hint_unit hints field = None \<longleftrightarrow>
     (\<forall>h \<in> set (map fst hints). \<not> str_contains field h)"
  by (induction hints field rule: first_hint_unit.induct) auto

lemma first_hint_unit_Some:
  "first_hint_unit hints field = Some u \<longleftrightarrow>
     (\<exists>i < length hints. snd (hints ! i) = u \<and> str_contains field (fst (hints ! i)) \<and>
        (\<forall>j < i. \<not> str_contains field (fst (hints ! j))))"
proof (induction hints field rule: first_hint_unit.induct)
  case (1 field)
  then show ?case by simp
next
  case (2 hint v rest field)
  show ?case
  proof (cases "str_contains field hint")
    case True
    have "(\<exists>i < length ((hint, v) # rest). snd (((hint, v) # rest) ! i) = u \<and>
             str_contains field (fst (((hint, v) # rest) ! i)) \<and>
             (\<forall>j < i. \<not> str_contains field (fst (((hint, v) # rest) ! j)))) \<longleftrightarrow> v = u"
    proof
      assume "\<exists>i < length ((hint, v) # rest). snd (((hint, v) # rest) ! i) = u \<and>
             str_contains field (fst (((hint, v) # rest) ! i)) \<and>
             (\<forall>j < i. \<not> str_contains field (fst (((hint, v) # rest) ! j)))"
      then obtain i where i: "snd (((hint, v) # rest) ! i) = u"
        and least: "\<forall>j < i. \<not> str_contains field (fst (((hint, v) # rest) ! j))" by blast
      have "i = 0"
      proof (rule ccontr)
        assume "i \<noteq> 0"
        then have "0 < i" by simp
        with least have "\<not> str_contains field (fst (((hint, v) # rest) ! 0))" by blast
        with True show False by simp
      qed
      with i show "v = u" by simp
    next
      assume "v = u"
      with True show "\<exists>i < length ((hint, v) # rest). snd (((hint, v) # rest) ! i) = u \<and>
             str_contains field (fst (((hint, v) # rest) ! i)) \<and>
             (\<forall>j < i. \<not> str_contains field (fst (((hint, v) # rest) ! j)))"
        by (intro exI[of _ 0]) simp
    qed
    with True show ?thesis by simp
  next
    case False
    have "(\<exists>i < length ((hint, v) # rest). snd (((hint, v) # rest) ! i) = u \<and>
             str_contains field (fst (((hint, v) # rest) ! i)) \<and>
             (\<forall>j < i. \<not> str_contains field (fst (((hint, v) # rest) ! j)))) \<longleftrightarrow>
          (\<exists>i < length rest. snd (rest ! i) = u \<and> str_contains field (fst (rest ! i)) \<and>
             (\<forall>j < i. \<not> str_contains field (fst (rest ! j))))" (is "?L \<longleftrightarrow> ?R")
    proof
      assume ?L
      then obtain i where i: "i < length ((hint, v) # rest)"
        "snd (((hint, v) # rest) ! i) = u"
        "str_contains field (fst (((hint, v) # rest) ! i))"
        "\<forall>j < i. \<not> str_contains field (fst (((hint, v) # rest) ! j))" by blast
      from i(3) False have "i \<noteq> 0" by (cases i) auto
      then obtain k where k: "i = Suc k" by (cases i) auto
      have "\<forall>j < k. \<not> str_contains field (fst (rest ! j))"
      proof (intro allI impI)
        fix j assume "j < k"
        then have "Suc j < i" using k by simp
        with i(4) have "\<not> str_contains field (fst (((hint, v) # rest) ! Suc j))" by blast
        then show "\<not> str_contains field (fst (rest ! j))" by simp
      qed
      with i k show ?R by (intro exI[of _ k]) simp
    next
      assume ?R
      then obtain k where k: "k < length rest" "snd (rest ! k) = u"
        "str_contains field (fst (rest ! k))"
        "\<forall>j < k. \<not> str_contains field (fst (rest ! j))" by blast
      have "\<forall>j < Suc k. \<not> str_contains field (fst (((hint, v) # rest) ! j))"
      proof (intro allI impI)
        fix j assume "j < Suc k"
        then show "\<not> str_contains field (fst (((hint, v) # rest) ! j))"
          using False k(4) by (cases j) auto
      qed
      with k show ?L by (intro exI[of _ "Suc k"]) simp
    qed
    with False 2 show ?thesis by simp
  qed
qed

section \<open>Commands\<close>

lemma api_calls_append: "api_calls (xs @ ys) = api_calls xs @ api_calls ys"
  by (simp add: api_calls_def)

lemma api_calls_Nil: "api_calls [] = []"
  by (simp add: api_calls_def)


lemma api_calls_WriteHaState: "api_calls (WriteHaState # tr) = api_calls tr"
  by (simp add: api_calls_def)

lemma async_set_hvac_mode_raises:
  assumes "async_call cm (climate_call mode (climate_vin (self w))) (climate_vin (self w))
             (if mode = OFF then ''stop_climate'' else ''start_climate'') (api w) = (Inl exc, a)"
  shows "async_set_hvac_mode cm mode w =
           (Inl (HomeAssistantError (str_exn exc)),
            w\<lparr>self := (self w)\<lparr>climate_last_command :=
                       Some (if mode = OFF then ''stop_climate'' else ''start_climate'')\<rparr>,
              api := a,
              trace := trace w @ [ApiCall (climate_vin (self w))
                        (if mode = OFF then ''stop_climate'' else ''start_climate'')]\<rparr>)"
  using assms by (simp add: async_set_hvac_mode_def api_async_call_def Let_def)

lemma async_set_hvac_mode_returns:
  assumes "async_call cm (climate_call mode (climate_vin (self w))) (climate_vin (self w))
             (if mode = OFF then ''stop_climate'' else ''start_climate'') (api w) = (Inr res, a)"
  shows "async_set_hvac_mode cm mode w =
           (Inr (),
            w\<lparr>self := (self w)\<lparr>climate_last_command :=
                       Some (if mode = OFF then ''stop_climate'' else ''start_climate''),
                       climate_last_mode := mode\<rparr>,
              api := a,
              trace := trace w @ [ApiCall (climate_vin (self w))
                        (if mode = OFF then ''stop_climate'' else ''start_climate'')] @ [WriteHaState]\<rparr>)"
  using assms
  by (simp add: async_set_hvac_mode_def api_async_call_def async_write_ha_state_def Let_def)





section \<open>Unit of a discovered metric\<close>

text \<open>
  Claim C2. \<open>BydMetricSensor.native_unit_of_measurement\<close> goes through the hints in the
  order percent, mileage, endurance, speed, temp, pressure, direction and returns the unit
  of the first hint that occurs in the sensor's field name as a substring: if the hint at
  position \<open>i\<close> occurs and no hint before it does, the result is the unit at position \<open>i\<close>.
  If no hint occurs in the field name, the result is \<open>None\<close>.
\<close>

theorem native_unit_of_measurement_first_hint:
  "map fst UNIT_HINTS =
     [''percent'', ''mileage'', ''endurance'', ''speed'', ''temp'', ''pressure'', ''direction''] \<and>
   (\<forall>i < length UNIT_HINTS.
      (\<exists>ps ss. metric_field (self w) = ps @ fst (UNIT_HINTS ! i) @ ss) \<and>
      (\<forall>j < i. \<not> (\<exists>ps ss. metric_field (self w) = ps @ fst (UNIT_HINTS ! j) @ ss))
      \<longrightarrow> fst (native_unit_of_measurement w) = Some (snd (UNIT_HINTS ! i))) \<and>
   ((\<forall>h \<in> set (map fst UNIT_HINTS). \<not> (\<exists>ps ss. metric_field (self w) = ps @ h @ ss))
      \<longrightarrow> fst (native_unit_of_measurement w) = None)"
proof (intro conjI allI impI)
  show "map fst UNIT_HINTS =
     [''percent'', ''mileage'', ''endurance'', ''speed'', ''temp'', ''pressure'', ''direction'']"
    by (simp add: UNIT_HINTS_def)
next
  fix i
  assume "i < length UNIT_HINTS"
    and "(\<exists>ps ss. metric_field (self w) = ps @ fst (UNIT_HINTS ! i) @ ss) \<and>
      (\<forall>j < i. \<not> (\<exists>ps ss. metric_field (self w) = ps @ fst (UNIT_HINTS ! j) @ ss))"
  then have "\<exists>k < length UNIT_HINTS. snd (UNIT_HINTS ! k) = snd (UNIT_HINTS ! i) \<and>
      str_contains (metric_field (self w)) (fst (UNIT_HINTS ! k)) \<and>
      (\<forall>j < k. \<not> str_contains (metric_field (self w)) (fst (UNIT_HINTS ! j)))"
    unfolding str_contains_iff by blast
  then have "first_hint_unit UNIT_HINTS (metric_field (self w)) = Some (snd (UNIT_HINTS ! i))"
    by (simp only: first_hint_unit_Some)
  then show "fst (native_unit_of_measurement w) = Some (snd (UNIT_HINTS ! i))"
    by (simp add: native_unit_of_measurement_def)
next
  assume "\<forall>h \<in> set (map fst UNIT_HINTS). \<not> (\<exists>ps ss. metric_field (self w) = ps @ h @ ss)"
  then have "\<forall>h \<in> set (map fst UNIT_HINTS). \<not> str_contains (metric_field (self w)) h"
    unfolding str_contains_iff by blast
  then have "first_hint_unit UNIT_HINTS (metric_field (self w)) = None"
    by (simp only: first_hint_unit_None)
  then show "fst (native_unit_of_measurement w) = None"
    by (simp add: native_unit_of_measurement_def)
qed

text \<open>
  The field \<open>tire_pressure_temp\<close> holds the hints \<open>temp\<close> and \<open>pressure\<close>; \<open>temp\<close> is the
  earlier one in the table, so the unit is \<open>C\<close>.
\<close>

theorem native_unit_of_measurement_first_hint_witness:
  "fst (native_unit_of_measurement
         \<lparr> coordinator_data = [], gps_coordinator_data = [], api = (),
           self = BydMetricSensor_init Coordinator ''V1'' (Object ''Vehicle'' []) ''realtime''
                    ''tire_pressure_temp'' ''realtime'',
           trace = [] \<rparr>) = Some ''C''"
proof -
  let ?w = "\<lparr> coordinator_data = [], gps_coordinator_data = [], api = (),
           self = BydMetricSensor_init Coordinator ''V1'' (Object ''Vehicle'' []) ''realtime''
                    ''tire_pressure_temp'' ''realtime'',
           trace = [] \<rparr> :: (BydMetricSensor, unit) world"
  have f: "metric_field (self ?w) = ''tire_pressure_temp''"
    by (simp add: BydMetricSensor_init_def)
  have len: "(4::nat) < length UNIT_HINTS" by (simp add: UNIT_HINTS_def)
  have occ: "\<exists>ps ss. metric_field (self ?w) = ps @ fst (UNIT_HINTS ! 4) @ ss"
    unfolding str_contains_iff [symmetric] f by (simp add: UNIT_HINTS_def)
  have first: "\<forall>j < 4. \<not> (\<exists>ps ss. metric_field (self ?w) = ps @ fst (UNIT_HINTS ! j) @ ss)"
    unfolding str_contains_iff [symmetric] f
    by (simp add: UNIT_HINTS_def PERCENTAGE_def less_Suc_eq numeral_eq_Suc all_conj_distrib)
  from native_unit_of_measurement_first_hint [of ?w] len occ first
  have "fst (native_unit_of_measurement ?w) = Some (snd (UNIT_HINTS ! 4))" by blast
  then show ?thesis by (simp add: UNIT_HINTS_def)
qed

section \<open>Failures of the API call\<close>



text \<open>
  Claim C9. When the API call inside \<open>BydClimate.async_set_hvac_mode\<close> raises, the
  method raises \<open>HomeAssistantError\<close>, \<open>_last_mode\<close> still has the value it had before the
  call, and \<open>_last_command\<close> already names the attempted command: \<open>stop_climate\<close> for
  \<open>HVACMode.OFF\<close>, \<open>start_climate\<close> otherwise. When the call returns, the method returns,
  \<open>_last_mode\<close> is the requested mode and \<open>_last_command\<close> the command.
\<close>

theorem failed_command_keeps_last_mode:
  "(\<forall>exc a.
      async_call cm (climate_call mode (climate_vin (self w))) (climate_vin (self w))
        (if mode = OFF then ''stop_climate'' else ''start_climate'') (api w) = (Inl exc, a)
      \<longrightarrow> fst (async_set_hvac_mode cm mode w) = Inl (HomeAssistantError (str_exn exc)) \<and>
          climate_last_mode (self (snd (async_set_hvac_mode cm mode w))) = climate_last_mode (self w) \<and>
          climate_last_command (self (snd (async_set_hvac_mode cm mode w))) =
            Some (if mode = OFF then ''stop_climate'' else ''start_climate'')) \<and>
   (\<forall>res a.
      async_call cm (climate_call mode (climate_vin (self w))) (climate_vin (self w))
        (if mode = OFF then ''stop_climate'' else ''start_climate'') (api w) = (Inr res, a)
      \<longrightarrow> fst (async_set_hvac_mode cm mode w) = Inr () \<and>
          climate_last_mode (self (snd (async_set_hvac_mode cm mode w))) = mode \<and>
          climate_last_command (self (snd (async_set_hvac_mode cm mode w))) =
            Some (if mode = OFF then ''stop_climate'' else ''start_climate''))"
  by (simp add: async_set_hvac_mode_raises async_set_hvac_mode_returns)

text \<open>
  Turning off a climate entity whose last mode is \<open>HEAT_COOL\<close> fails in the example
  installation and leaves the last mode at \<open>HEAT_COOL\<close>; turning it on succeeds.
\<close>

theorem failed_command_keeps_last_mode_witness:
  "climate_last_mode (self (snd (async_set_hvac_mode example_module OFF
      (example_world ((BydClimate_init ''LGX1'' example_vehicle)\<lparr>climate_last_mode := HEAT_COOL\<rparr>)))))
     = HEAT_COOL \<and>
   climate_last_command (self (snd (async_set_hvac_mode example_module OFF
      (example_world ((BydClimate_init ''LGX1'' example_vehicle)\<lparr>climate_last_mode := HEAT_COOL\<rparr>)))))
     = Some ''stop_climate'' \<and>
   climate_last_mode (self (snd (async_set_hvac_mode example_module HEAT_COOL
      (example_world (BydClimate_init ''LGX1'' example_vehicle))))) = HEAT_COOL \<and>
   climate_last_command (self (snd (async_set_hvac_mode example_module HEAT_COOL
      (example_world (BydClimate_init ''LGX1'' example_vehicle))))) = Some ''start_climate''"
proof -
  let ?w1 = "example_world ((BydClimate_init ''LGX1'' example_vehicle)\<lparr>climate_last_mode := HEAT_COOL\<rparr>)"
  let ?w2 = "example_world (BydClimate_init ''LGX1'' example_vehicle)"
  have c1: "async_call example_module (climate_call OFF (climate_vin (self ?w1)))
             (climate_vin (self ?w1)) (if OFF = OFF then ''stop_climate'' else ''start_climate'')
             (api ?w1) = (Inl (PyException ''AttributeError'' ''stop_climate''), [])"
    by (simp add: example_module_def example_world_def example_client_def climate_call_def
          client_invoke_def BydClimate_init_def)
  have c2: "async_call example_module (climate_call HEAT_COOL (climate_vin (self ?w2)))
             (climate_vin (self ?w2))
             (if HEAT_COOL = OFF then ''stop_climate'' else ''start_climate'')
             (api ?w2) = (Inr (VDict [(''success'', VBool True)]),
                          [(''LGX1'', ''start_climate'', VDict [(''success'', VBool True)])])"
    by (simp add: example_module_def example_world_def example_client_def climate_call_def
          client_invoke_def BydClimate_init_def)
  have m1: "climate_last_mode (self ?w1) = HEAT_COOL"
    by (simp add: example_world_def)
  from failed_command_keeps_last_mode [of example_module OFF ?w1] c1 m1
  have r1: "climate_last_mode (self (snd (async_set_hvac_mode example_module OFF ?w1))) = HEAT_COOL \<and>
            climate_last_command (self (snd (async_set_hvac_mode example_module OFF ?w1))) =
              Some ''stop_climate''"
    by simp
  from failed_command_keeps_last_mode [of example_module HEAT_COOL ?w2] c2
  have r2: "climate_last_mode (self (snd (async_set_hvac_mode example_module HEAT_COOL ?w2))) = HEAT_COOL \<and>
            climate_last_command (self (snd (async_set_hvac_mode example_module HEAT_COOL ?w2))) =
              Some ''start_climate''"
    by simp
  from r1 r2 show ?thesis by simp
qed

section \<open>The momentary switch\<close>

text \<open>
  Claim C10. \<open>BydMomentarySwitch.is_on\<close> is \<open>False\<close> in every state, also in the state
  that \<open>async_turn_on\<close> leaves behind. \<open>async_turn_off\<close> returns without an API call and
  changes no field of the entity, nor the API state or the coordinator's data.
\<close>

theorem momentary_switch_is_never_on:
  "fst (is_on w) = False \<and>
   fst (is_on (snd (async_turn_on cm w))) = False \<and>
   fst (async_turn_off w) = Inr () \<and>
   self (snd (async_turn_off w)) = self w \<and>
   api (snd (async_turn_off w)) = api w \<and>
   coordinator_data (snd (async_turn_off w)) = coordinator_data w \<and>
   api_calls (trace (snd (async_turn_off w))) = api_calls (trace w)"
  by (simp add: is_on_def async_turn_off_def async_write_ha_state_def api_calls_append
        api_calls_WriteHaState api_calls_Nil)

section \<open>Reading an entity\<close>

text \<open>
  Claim C3. Evaluating a read-only property of an entity (\<open>native_value\<close> of either
  sensor class, \<open>hvac_mode\<close>, \<open>current_temperature\<close>, \<open>target_temperature\<close>, every
  \<open>extra_state_attributes\<close>, and also \<open>native_unit_of_measurement\<close> and \<open>is_on\<close>) leaves the
  world as it was: the coordinator's data with the status objects in it, the API state and
  the entity's own fields. Nothing is cached: a read after the coordinator has replaced
  its data gives what a first read on the new data gives, whatever was read before.
\<close>

theorem reads_leave_world_unchanged:
  "snd (telemetry_native_value cm tw) = tw \<and>
   snd (telemetry_extra_state_attributes tw) = tw \<and>
   snd (metric_native_value cm mw) = mw \<and>
   snd (native_unit_of_measurement mw) = mw \<and>
   snd (metric_extra_state_attributes cm mw) = mw \<and>
   snd (hvac_mode cw) = cw \<and>
   snd (current_temperature cw) = cw \<and>
   snd (target_temperature cw) = cw \<and>
   snd (climate_extra_state_attributes cm cw) = cw \<and>
   snd (is_on sw) = sw \<and>
   snd (switch_extra_state_attributes cm sw) = sw \<and>
   fst (telemetry_native_value cm (snd (telemetry_native_value cm tw)\<lparr>coordinator_data := d\<rparr>)) =
     fst (telemetry_native_value cm (tw\<lparr>coordinator_data := d\<rparr>)) \<and>
   fst (metric_native_value cm (snd (metric_native_value cm mw)\<lparr>coordinator_data := d\<rparr>)) =
     fst (metric_native_value cm (mw\<lparr>coordinator_data := d\<rparr>)) \<and>
   fst (hvac_mode (snd (hvac_mode cw)\<lparr>coordinator_data := d\<rparr>)) =
     fst (hvac_mode (cw\<lparr>coordinator_data := d\<rparr>)) \<and>
   fst (current_temperature (snd (current_temperature cw)\<lparr>coordinator_data := d\<rparr>)) =
     fst (current_temperature (cw\<lparr>coordinator_data := d\<rparr>)) \<and>
   fst (target_temperature (snd (target_temperature cw)\<lparr>coordinator_data := d\<rparr>)) =
     fst (target_temperature (cw\<lparr>coordinator_data := d\<rparr>))"
proof -
  have t1: "snd (telemetry_native_value cm tw) = tw"
    by (simp add: telemetry_native_value_def Let_def)
  have t2: "snd (telemetry_extra_state_attributes tw) = tw"
    by (simp add: telemetry_extra_state_attributes_def)
  have m1: "snd (metric_native_value cm mw) = mw"
    by (simp add: metric_native_value_def Let_def)
  have m2: "snd (native_unit_of_measurement mw) = mw"
    by (simp add: native_unit_of_measurement_def)
  have m3: "snd (metric_extra_state_attributes cm mw) = mw"
    by (simp add: metric_extra_state_attributes_def Let_def)
  have c1: "snd (hvac_mode cw) = cw"
    by (simp add: hvac_mode_def split: option.split)
  have c2: "snd (current_temperature cw) = cw"
    by (simp add: current_temperature_def split: option.split)
  have c3: "snd (target_temperature cw) = cw"
    by (simp add: target_temperature_def split: option.split)
  have c4: "snd (climate_extra_state_attributes cm cw) = cw"
    by (simp add: climate_extra_state_attributes_def Let_def)
  have s1: "snd (is_on sw) = sw"
    by (simp add: is_on_def)
  have s2: "snd (switch_extra_state_attributes cm sw) = sw"
    by (simp add: switch_extra_state_attributes_def Let_def)
  show ?thesis
    by (simp only: t1 t2 m1 m2 m3 c1 c2 c3 c4 s1 s2 simp_thms)
qed

section \<open>The result of the last remote command\<close>

lemma climate_last_remote_result:
  assumes "climate_last_command (self w) = Some cmd" and "cmd \<noteq> []"
  shows "fst (climate_extra_state_attributes cm w) ''last_remote_result'' =
           (if truthy (get_last_remote_result cm (api w) (climate_vin (self w)) cmd)
            then Some (get_last_remote_result cm (api w) (climate_vin (self w)) cmd)
            else None)"
  using assms
  by (simp add: climate_extra_state_attributes_def Let_def split: option.split)

lemma climate_last_command_after:
  "climate_last_command (self (snd (async_set_hvac_mode cm mode w))) =
     Some (if mode = OFF then ''stop_climate'' else ''start_climate'')"
proof -
  obtain r a where call:
    "async_call cm (climate_call mode (climate_vin (self w))) (climate_vin (self w))
       (if mode = OFF then ''stop_climate'' else ''start_climate'') (api w) = (r, a)"
    by (cases "async_call cm (climate_call mode (climate_vin (self w))) (climate_vin (self w))
       (if mode = OFF then ''stop_climate'' else ''start_climate'') (api w)")
  show ?thesis
  proof (cases r)
    case (Inl exc)
    with call show ?thesis by (simp add: async_set_hvac_mode_raises)
  next
    case (Inr res)
    with call show ?thesis by (simp add: async_set_hvac_mode_returns)
  qed
qed

lemma climate_no_last_remote_result:
  assumes "climate_last_command (self w) = None"
  shows "fst (climate_extra_state_attributes cm w) ''last_remote_result'' = None"
  using assms
  by (simp add: climate_extra_state_attributes_def Let_def split: option.split)

text \<open>
  Claim C4. The attributes of a \<open>BydMomentarySwitch\<close> have the key \<open>last_remote_result\<close>
  exactly when \<open>get_last_remote_result\<close> for the entity's VIN and command is true in a
  condition, and then map it to that result. The same holds for a \<open>BydClimate\<close> once
  \<open>async_set_hvac_mode\<close> has run, whether the command succeeded or not, with the attempted
  command (\<open>stop_climate\<close> or \<open>start_climate\<close>), and in every later state in which
  \<open>_last_command\<close> names a command. A \<open>BydClimate\<close> without a last command has no such key.
\<close>

theorem last_remote_result_attribute:
  "fst (switch_extra_state_attributes cm sw) ''last_remote_result'' =
     (if truthy (get_last_remote_result cm (api sw) (switch_vin (self sw)) (switch_command (self sw)))
      then Some (get_last_remote_result cm (api sw) (switch_vin (self sw)) (switch_command (self sw)))
      else None) \<and>
   fst (climate_extra_state_attributes cm (snd (async_set_hvac_mode cm mode cw))) ''last_remote_result'' =
     (if truthy (get_last_remote_result cm (api (snd (async_set_hvac_mode cm mode cw)))
                   (climate_vin (self (snd (async_set_hvac_mode cm mode cw))))
                   (if mode = OFF then ''stop_climate'' else ''start_climate''))
      then Some (get_last_remote_result cm (api (snd (async_set_hvac_mode cm mode cw)))
                   (climate_vin (self (snd (async_set_hvac_mode cm mode cw))))
                   (if mode = OFF then ''stop_climate'' else ''start_climate''))
      else None) \<and>
   (\<forall>cmd. climate_last_command (self cw) = Some cmd \<and> cmd \<noteq> [] \<longrightarrow>
      fst (climate_extra_state_attributes cm cw) ''last_remote_result'' =
        (if truthy (get_last_remote_result cm (api cw) (climate_vin (self cw)) cmd)
         then Some (get_last_remote_result cm (api cw) (climate_vin (self cw)) cmd)
         else None)) \<and>
   (climate_last_command (self cw) = None \<longrightarrow>
      fst (climate_extra_state_attributes cm cw) ''last_remote_result'' = None)"
proof (intro conjI allI impI)
  show "fst (switch_extra_state_attributes cm sw) ''last_remote_result'' =
     (if truthy (get_last_remote_result cm (api sw) (switch_vin (self sw)) (switch_command (self sw)))
      then Some (get_last_remote_result cm (api sw) (switch_vin (self sw)) (switch_command (self sw)))
      else None)"
    by (simp add: switch_extra_state_attributes_def Let_def)
next
  let ?w = "snd (async_set_hvac_mode cm mode cw)"
  let ?cmd = "if mode = OFF then ''stop_climate'' else ''start_climate''"
  have "climate_last_command (self ?w) = Some ?cmd"
    by (rule climate_last_command_after)
  moreover have "?cmd \<noteq> []" by simp
  ultimately show "fst (climate_extra_state_attributes cm ?w) ''last_remote_result'' =
     (if truthy (get_last_remote_result cm (api ?w) (climate_vin (self ?w)) ?cmd)
      then Some (get_last_remote_result cm (api ?w) (climate_vin (self ?w)) ?cmd)
      else None)"
    by (rule climate_last_remote_result)
next
  fix cmd assume "climate_last_command (self cw) = Some cmd \<and> cmd \<noteq> []"
  then have "climate_last_command (self cw) = Some cmd" and "cmd \<noteq> []" by simp_all
  then show "fst (climate_extra_state_attributes cm cw) ''last_remote_result'' =
        (if truthy (get_last_remote_result cm (api cw) (climate_vin (self cw)) cmd)
         then Some (get_last_remote_result cm (api cw) (climate_vin (self cw)) cmd)
         else None)"
    by (rule climate_last_remote_result)
next
  assume "climate_last_command (self cw) = None"
  then show "fst (climate_extra_state_attributes cm cw) ''last_remote_result'' = None"
    by (rule climate_no_last_remote_result)
qed

text \<open>
  In the example installation \<open>honk_horn\<close> and \<open>start_climate\<close> succeed and their result is
  shown; \<open>open_trunk\<close> fails, no result is recorded and the key is left out, as it is for
  a climate entity that has not been given a command.
\<close>

theorem last_remote_result_attribute_witness:
  "fst (switch_extra_state_attributes example_module
          (snd (async_turn_on example_module
             (example_world (BydMomentarySwitch_init ''LGX1'' example_vehicle ''honk_horn'')))))
     ''last_remote_result'' = Some (VDict [(''success'', VBool True)]) \<and>
   fst (switch_extra_state_attributes example_module
          (snd (async_turn_on example_module
             (example_world (BydMomentarySwitch_init ''LGX1'' example_vehicle ''open_trunk'')))))
     ''last_remote_result'' = None \<and>
   fst (climate_extra_state_attributes example_module
          (snd (async_set_hvac_mode example_module HEAT_COOL
             (example_world (BydClimate_init ''LGX1'' example_vehicle)))))
     ''last_remote_result'' = Some (VDict [(''success'', VBool True)]) \<and>
   fst (climate_extra_state_attributes example_module
          (example_world (BydClimate_init ''LGX1'' example_vehicle)))
     ''last_remote_result'' = None"
proof -
  let ?s1 = "snd (async_turn_on example_module
             (example_world (BydMomentarySwitch_init ''LGX1'' example_vehicle ''honk_horn'')))"
  let ?s2 = "snd (async_turn_on example_module
             (example_world (BydMomentarySwitch_init ''LGX1'' example_vehicle ''open_trunk'')))"
  let ?c = "example_world (BydClimate_init ''LGX1'' example_vehicle)"
  let ?c' = "snd (async_set_hvac_mode example_module HEAT_COOL ?c)"
  have s1: "?s1 = \<lparr> coordinator_data = [(''vehicles'', [(''LGX1'', example_vehicle)])],
                   gps_coordinator_data = [],
                   api = [(''LGX1'', ''honk_horn'', VDict [(''success'', VBool True)])],
                   self = BydMomentarySwitch_init ''LGX1'' example_vehicle ''honk_horn'',
                   trace = [ApiCall ''LGX1'' ''honk_horn'', WriteHaState] \<rparr>"
    by (simp add: async_turn_on_def api_async_call_def async_write_ha_state_def Let_def
          example_module_def example_world_def example_client_def switch_call_def
          BydMomentarySwitch_init_def)
  have s2: "?s2 = \<lparr> coordinator_data = [(''vehicles'', [(''LGX1'', example_vehicle)])],
                   gps_coordinator_data = [],
                   api = [],
                   self = BydMomentarySwitch_init ''LGX1'' example_vehicle ''open_trunk'',
                   trace = [ApiCall ''LGX1'' ''open_trunk''] \<rparr>"
    by (simp add: async_turn_on_def api_async_call_def async_write_ha_state_def Let_def
          example_module_def example_world_def example_client_def switch_call_def
          BydMomentarySwitch_init_def)
  have c: "?c' =
             \<lparr> coordinator_data = [(''vehicles'', [(''LGX1'', example_vehicle)])],
               gps_coordinator_data = [],
               api = [(''LGX1'', ''start_climate'', VDict [(''success'', VBool True)])],
               self = (BydClimate_init ''LGX1'' example_vehicle)
                        \<lparr>climate_last_command := Some ''start_climate'',
                         climate_last_mode := HEAT_COOL\<rparr>,
               trace = [ApiCall ''LGX1'' ''start_climate'', WriteHaState] \<rparr>"
    by (simp add: async_set_hvac_mode_def api_async_call_def async_write_ha_state_def Let_def
          example_module_def example_world_def example_client_def climate_call_def
          client_invoke_def BydClimate_init_def)
  have g1: "get_last_remote_result example_module (api ?s1) (switch_vin (self ?s1))
              (switch_command (self ?s1)) = VDict [(''success'', VBool True)]"
    unfolding s1 by (simp add: example_module_def BydMomentarySwitch_init_def)
  have g2: "get_last_remote_result example_module (api ?s2) (switch_vin (self ?s2))
              (switch_command (self ?s2)) = VNone"
    unfolding s2 by (simp add: example_module_def BydMomentarySwitch_init_def)
  have l3: "climate_last_command (self ?c') = Some ''start_climate'' \<and> ''start_climate'' \<noteq> []"
    unfolding c by simp
  have g3: "get_last_remote_result example_module (api ?c') (climate_vin (self ?c'))
              ''start_climate'' = VDict [(''success'', VBool True)]"
    unfolding c by (simp add: example_module_def BydClimate_init_def)
  have l4: "climate_last_command (self ?c) = None"
    by (simp add: example_world_def BydClimate_init_def)
  from last_remote_result_attribute [of example_module ?s1 HEAT_COOL ?c] g1 l4
  have r1: "fst (switch_extra_state_attributes example_module ?s1) ''last_remote_result'' =
              Some (VDict [(''success'', VBool True)]) \<and>
            fst (climate_extra_state_attributes example_module ?c) ''last_remote_result'' = None"
    by simp
  from last_remote_result_attribute [of example_module ?s2 HEAT_COOL ?c'] g2 l3 g3
  have r2: "fst (switch_extra_state_attributes example_module ?s2) ''last_remote_result'' = None \<and>
            fst (climate_extra_state_attributes example_module ?c') ''last_remote_result'' =
              Some (VDict [(''success'', VBool True)])"
    by simp
  from r1 r2 show ?thesis by simp
qed

section \<open>Missing data\<close>











section \<open>Entities per vehicle\<close>

lemma filter_key_absent:
  assumes keys: "\<And>k v e. e \<in> set (g k v) \<Longrightarrow> key e = k"
  shows "k \<notin> fst ` set kvs \<Longrightarrow>
           filter (\<lambda>e. key e = k) (concat (map (\<lambda>(k, v). g k v) kvs)) = []"
proof (induction kvs)
  case Nil
  then show ?case by simp
next
  case (Cons kv kvs)
  obtain k' v' where kv: "kv = (k', v')" by (cases kv)
  from Cons.prems kv have ne: "k' \<noteq> k" and "k \<notin> fst ` set kvs" by auto
  then have rest: "filter (\<lambda>e. key e = k) (concat (map (\<lambda>(k, v). g k v) kvs)) = []"
    using Cons.IH by simp
  have "filter (\<lambda>e. key e = k) (g k' v') = []"
    using keys ne by (auto simp: filter_empty_conv)
  with rest kv show ?case by simp
qed

lemma filter_key_present:
  assumes keys: "\<And>k v e. e \<in> set (g k v) \<Longrightarrow> key e = k"
  shows "distinct (map fst kvs) \<Longrightarrow> (k, v) \<in> set kvs \<Longrightarrow>
           filter (\<lambda>e. key e = k) (concat (map (\<lambda>(k, v). g k v) kvs)) = g k v"
proof (induction kvs)
  case Nil
  then show ?case by simp
next
  case (Cons kv kvs)
  obtain k' v' where kv: "kv = (k', v')" by (cases kv)
  from Cons.prems kv have notin: "k' \<notin> fst ` set kvs" and dist: "distinct (map fst kvs)"
    by auto
  show ?case
  proof (cases "k = k'")
    case True
    have "(k, v) \<notin> set kvs" using notin True by force
    with Cons.prems(2) kv True have v: "v' = v" by simp
    have here: "filter (\<lambda>e. key e = k) (g k' v') = g k' v'"
      using keys True by (auto simp: filter_id_conv)
    have "filter (\<lambda>e. key e = k) (concat (map (\<lambda>(k, v). g k v) kvs)) = []"
      using notin True by (intro filter_key_absent keys) simp_all
    with here kv v True show ?thesis by simp
  next
    case False
    with Cons.prems(2) kv have "(k, v) \<in> set kvs" by simp
    with Cons.IH dist
    have rest: "filter (\<lambda>e. key e = k) (concat (map (\<lambda>(k, v). g k v) kvs)) = g k v" by simp
    have "filter (\<lambda>e. key e = k) (g k' v') = []"
      using keys False by (auto simp: filter_empty_conv)
    with rest kv show ?thesis by simp
  qed
qed

lemma climate_setup_concat:
  "climate_async_setup_entry data =
     concat (map (\<lambda>(vin, vehicle). [BydClimate_init vin vehicle]) (get_or_empty data ''vehicles''))"
proof -
  have "map (\<lambda>(vin, vehicle). BydClimate_init vin vehicle) vs =
          concat (map (\<lambda>(vin, vehicle). [BydClimate_init vin vehicle]) vs)" for vs :: "status dict"
    by (induction vs) auto
  then show ?thesis by (simp add: climate_async_setup_entry_def)
qed

lemma explicit_entities_vin: "e \<in> set (explicit_entities vin vehicle) \<Longrightarrow> sensor_vin e = vin"
  by (auto simp: explicit_entities_def sensor_vin_def BydTelemetrySensor_init_def)

lemma dynamic_entities_vin:
  "e \<in> set (dynamic_entities cm vin vehicle src) \<Longrightarrow> sensor_vin e = vin"
  by (auto simp: dynamic_entities_def sensor_vin_def BydMetricSensor_init_def split: prod.splits)

lemma sensor_entities_vin:
  "e \<in> set (explicit_entities vin vehicle @
            concat (map (dynamic_entities cm vin vehicle) srcs)) \<Longrightarrow> sensor_vin e = vin"
  by (auto dest: explicit_entities_vin dynamic_entities_vin)

text \<open>
  Claim C6. The keys of the \<open>vehicles\<close> mapping are distinct, as the keys of a dictionary
  are. For every VIN in it, with its vehicle object, the climate setup creates exactly
  one \<open>BydClimate\<close> and the switch setup exactly the four switches \<open>flash_lights\<close>,
  \<open>honk_horn\<close>, \<open>open_trunk\<close> and \<open>close_windows\<close>, one for each command. For a VIN that is
  not a key of the mapping no climate, switch or sensor entity is created.
\<close>

theorem entities_once_per_vehicle:
  assumes "distinct (map fst (get_or_empty data ''vehicles''))"
  shows "(\<forall>(vin, vehicle) \<in> set (get_or_empty data ''vehicles'').
            filter (\<lambda>e. climate_vin e = vin) (climate_async_setup_entry data) =
              [BydClimate_init vin vehicle] \<and>
            filter (\<lambda>e. switch_vin e = vin) (switch_async_setup_entry data) =
              [ BydMomentarySwitch_init vin vehicle ''flash_lights'',
                BydMomentarySwitch_init vin vehicle ''honk_horn'',
                BydMomentarySwitch_init vin vehicle ''open_trunk'',
                BydMomentarySwitch_init vin vehicle ''close_windows'' ] \<and>
            (\<forall>command \<in> {''flash_lights'', ''honk_horn'', ''open_trunk'', ''close_windows''}.
               filter (\<lambda>e. switch_vin e = vin \<and> switch_command e = command)
                 (switch_async_setup_entry data) = [BydMomentarySwitch_init vin vehicle command])) \<and>
         (\<forall>vin. vin \<notin> fst ` set (get_or_empty data ''vehicles'') \<longrightarrow>
            filter (\<lambda>e. climate_vin e = vin) (climate_async_setup_entry data) = [] \<and>
            filter (\<lambda>e. switch_vin e = vin) (switch_async_setup_entry data) = [] \<and>
            filter (\<lambda>e. sensor_vin e = vin) (sensor_async_setup_entry cm data) = [])"
proof (intro conjI ballI allI impI)
  fix kv assume kv: "kv \<in> set (get_or_empty data ''vehicles'')"
  obtain vin vehicle where eq: "kv = (vin, vehicle)" by (cases kv)
  have c: "filter (\<lambda>e. climate_vin e = vin) (climate_async_setup_entry data) =
              [BydClimate_init vin vehicle]"
    unfolding climate_setup_concat
    by (rule filter_key_present [OF _ assms]) (use kv eq in \<open>auto simp: BydClimate_init_def\<close>)
  have s: "filter (\<lambda>e. switch_vin e = vin) (switch_async_setup_entry data) =
              [ BydMomentarySwitch_init vin vehicle ''flash_lights'',
                BydMomentarySwitch_init vin vehicle ''honk_horn'',
                BydMomentarySwitch_init vin vehicle ''open_trunk'',
                BydMomentarySwitch_init vin vehicle ''close_windows'' ]"
    unfolding switch_async_setup_entry_def
    by (rule filter_key_present [OF _ assms])
       (use kv eq in \<open>auto simp: BydMomentarySwitch_init_def\<close>)
  have each: "\<forall>command \<in> {''flash_lights'', ''honk_horn'', ''open_trunk'', ''close_windows''}.
               filter (\<lambda>e. switch_vin e = vin \<and> switch_command e = command)
                 (switch_async_setup_entry data) = [BydMomentarySwitch_init vin vehicle command]"
  proof
    fix command
    assume cmd: "command \<in> {''flash_lights'', ''honk_horn'', ''open_trunk'', ''close_windows''}"
    have "filter (\<lambda>e. switch_vin e = vin \<and> switch_command e = command)
            (switch_async_setup_entry data) =
          filter (\<lambda>e. switch_command e = command)
            (filter (\<lambda>e. switch_vin e = vin) (switch_async_setup_entry data))"
      by simp
    also have "\<dots> = [BydMomentarySwitch_init vin vehicle command]"
      unfolding s using cmd by (auto simp: BydMomentarySwitch_init_def)
    finally show "filter (\<lambda>e. switch_vin e = vin \<and> switch_command e = command)
                 (switch_async_setup_entry data) = [BydMomentarySwitch_init vin vehicle command]" .
  qed
  from c s each eq
  show "case kv of (vin, vehicle) \<Rightarrow>
            filter (\<lambda>e. climate_vin e = vin) (climate_async_setup_entry data) =
              [BydClimate_init vin vehicle] \<and>
            filter (\<lambda>e. switch_vin e = vin) (switch_async_setup_entry data) =
              [ BydMomentarySwitch_init vin vehicle ''flash_lights'',
                BydMomentarySwitch_init vin vehicle ''honk_horn'',
                BydMomentarySwitch_init vin vehicle ''open_trunk'',
                BydMomentarySwitch_init vin vehicle ''close_windows'' ] \<and>
            (\<forall>command \<in> {''flash_lights'', ''honk_horn'', ''open_trunk'', ''close_windows''}.
               filter (\<lambda>e. switch_vin e = vin \<and> switch_command e = command)
                 (switch_async_setup_entry data) = [BydMomentarySwitch_init vin vehicle command])"
    by simp
next
  fix vin assume absent: "vin \<notin> fst ` set (get_or_empty data ''vehicles'')"
  show "filter (\<lambda>e. climate_vin e = vin) (climate_async_setup_entry data) = []"
    unfolding climate_setup_concat
    by (rule filter_key_absent [OF _ absent]) (auto simp: BydClimate_init_def)
  show "filter (\<lambda>e. switch_vin e = vin) (switch_async_setup_entry data) = []"
    unfolding switch_async_setup_entry_def
    by (rule filter_key_absent [OF _ absent]) (auto simp: BydMomentarySwitch_init_def)
  show "filter (\<lambda>e. sensor_vin e = vin) (sensor_async_setup_entry cm data) = []"
    unfolding sensor_async_setup_entry_def
    by (rule filter_key_absent [OF _ absent]) (rule sensor_entities_vin)
qed

text \<open>The example snapshot knows \<open>LGX1\<close> and does not know \<open>LGX2\<close>.\<close>

theorem entities_once_per_vehicle_witness:
  "filter (\<lambda>e. climate_vin e = ''LGX1'') (climate_async_setup_entry example_snapshot) =
     [BydClimate_init ''LGX1'' example_vehicle] \<and>
   filter (\<lambda>e. switch_vin e = ''LGX1'' \<and> switch_command e = ''honk_horn'')
     (switch_async_setup_entry example_snapshot) =
     [BydMomentarySwitch_init ''LGX1'' example_vehicle ''honk_horn''] \<and>
   length (filter (\<lambda>e. switch_vin e = ''LGX1'') (switch_async_setup_entry example_snapshot)) = 4 \<and>
   filter (\<lambda>e. climate_vin e = ''LGX2'') (climate_async_setup_entry example_snapshot) = [] \<and>
   filter (\<lambda>e. switch_vin e = ''LGX2'') (switch_async_setup_entry example_snapshot) = [] \<and>
   filter (\<lambda>e. sensor_vin e = ''LGX2'')
     (sensor_async_setup_entry example_module example_snapshot) = []"
proof -
  have vs: "get_or_empty example_snapshot ''vehicles'' = [(''LGX1'', example_vehicle)]"
    by (simp add: example_snapshot_def get_or_empty_def)
  have d: "distinct (map fst (get_or_empty example_snapshot ''vehicles''))"
    unfolding vs by simp
  have present: "(''LGX1'', example_vehicle) \<in> set (get_or_empty example_snapshot ''vehicles'')"
    unfolding vs by simp
  have absent: "''LGX2'' \<notin> fst ` set (get_or_empty example_snapshot ''vehicles'')"
    unfolding vs by simp
  have cmd: "''honk_horn'' \<in> {''flash_lights'', ''honk_horn'', ''open_trunk'', ''close_windows''}"
    by simp
  note per_vehicle = entities_once_per_vehicle [OF d, of example_module]
  from per_vehicle present
  have p: "filter (\<lambda>e. climate_vin e = ''LGX1'') (climate_async_setup_entry example_snapshot) =
              [BydClimate_init ''LGX1'' example_vehicle] \<and>
            filter (\<lambda>e. switch_vin e = ''LGX1'') (switch_async_setup_entry example_snapshot) =
              [ BydMomentarySwitch_init ''LGX1'' example_vehicle ''flash_lights'',
                BydMomentarySwitch_init ''LGX1'' example_vehicle ''honk_horn'',
                BydMomentarySwitch_init ''LGX1'' example_vehicle ''open_trunk'',
                BydMomentarySwitch_init ''LGX1'' example_vehicle ''close_windows'' ] \<and>
            (\<forall>command \<in> {''flash_lights'', ''honk_horn'', ''open_trunk'', ''close_windows''}.
               filter (\<lambda>e. switch_vin e = ''LGX1'' \<and> switch_command e = command)
                 (switch_async_setup_entry example_snapshot) =
               [BydMomentarySwitch_init ''LGX1'' example_vehicle command])"
    by fast
  from p cmd
  have h: "filter (\<lambda>e. switch_vin e = ''LGX1'' \<and> switch_command e = ''honk_horn'')
             (switch_async_setup_entry example_snapshot) =
           [BydMomentarySwitch_init ''LGX1'' example_vehicle ''honk_horn'']"
    by fast
  from p have four:
    "length (filter (\<lambda>e. switch_vin e = ''LGX1'') (switch_async_setup_entry example_snapshot)) = 4"
    by simp
  from per_vehicle absent
  have a: "filter (\<lambda>e. climate_vin e = ''LGX2'') (climate_async_setup_entry example_snapshot) = [] \<and>
           filter (\<lambda>e. switch_vin e = ''LGX2'') (switch_async_setup_entry example_snapshot) = [] \<and>
           filter (\<lambda>e. sensor_vin e = ''LGX2'')
             (sensor_async_setup_entry example_module example_snapshot) = []"
    by fast
  from p h four a show ?thesis by (simp only: simp_thms)
qed

section \<open>Explicit and discovered sensors\<close>

lemma source_keys_of_explicit:
  "map desc_source_key EXPLICIT_SENSORS =
     [''realtime'', ''realtime'', ''realtime'', ''realtime'', ''realtime'', ''realtime'',
      ''realtime'', ''realtime'', ''realtime'', ''energy'', ''energy'', ''energy'', ''energy'',
      ''charging'', ''charging'', ''charging'', ''hvac'', ''hvac'']"
  by (simp add: EXPLICIT_SENSORS_def)

lemma explicit_source_key:
  assumes "d \<in> set EXPLICIT_SENSORS"
  shows "desc_source_key d \<in> {''realtime'', ''energy'', ''hvac'', ''charging''}"
proof -
  from assms have "desc_source_key d \<in> set (map desc_source_key EXPLICIT_SENSORS)" by simp
  then show ?thesis unfolding source_keys_of_explicit by auto
qed


lemma explicit_fields_eq:
  "explicit_fields category =
     desc_key ` {d \<in> set EXPLICIT_SENSORS. desc_source_key d = category}"
proof -
  have none: "category \<notin> {''realtime'', ''energy'', ''hvac'', ''charging''} \<Longrightarrow>
              {d \<in> set EXPLICIT_SENSORS. desc_source_key d = category} = {}"
    using explicit_source_key by blast
  have keys: "explicit_keys_of c = desc_key ` {d \<in> set EXPLICIT_SENSORS. desc_source_key d = c}" for c
    by (auto simp: explicit_keys_of_def)
  show ?thesis
  proof (cases "category \<in> {''realtime'', ''energy'', ''hvac'', ''charging''}")
    case True
    then show ?thesis
      by (auto simp: explicit_fields_def EXPLICIT_FIELDS_BY_SOURCE_def keys)
  next
    case False
    with none have "{d \<in> set EXPLICIT_SENSORS. desc_source_key d = category} = {}" by simp
    moreover from False have "explicit_fields category = {}"
      by (auto simp: explicit_fields_def EXPLICIT_FIELDS_BY_SOURCE_def split: if_splits)
    ultimately show ?thesis by simp
  qed
qed

lemma Metric_in_dynamic_entities:
  "Metric m \<in> set (dynamic_entities cm vin vehicle (category, source_key, source)) \<longleftrightarrow>
     (\<exists>field \<in> fst ` set (metrics_of cm source vin).
        field \<notin> explicit_fields source_key \<and>
        m = BydMetricSensor_init (active_coordinator source_key) vin vehicle category field source_key)"
  by (auto simp: dynamic_entities_def)

lemma Metric_notin_explicit_entities: "Metric m \<notin> set (explicit_entities vin vehicle)"
  by (auto simp: explicit_entities_def)

lemma set_sources:
  "set (sources data) =
     (\<lambda>c. (c, c, source_of data c)) ` {''vehicle'', ''realtime'', ''energy'', ''hvac'', ''charging''}"
  by (simp add: sources_def source_of_def)

lemma set_sensor_async_setup_entry:
  "set (sensor_async_setup_entry cm data) =
     (\<Union>kv \<in> set (get_or_empty data ''vehicles'').
        set (explicit_entities (fst kv) (snd kv)) \<union>
        (\<Union>src \<in> set (sources data). set (dynamic_entities cm (fst kv) (snd kv) src)))"
  by (simp add: sensor_async_setup_entry_def split_def)

lemma active_coordinator_category:
  "c \<in> {''vehicle'', ''realtime'', ''energy'', ''hvac'', ''charging''} \<Longrightarrow>
     active_coordinator c = Coordinator"
  by (auto simp: active_coordinator_def)

lemma Metric_in_dynamic_entities':
  "Metric m \<in> set (dynamic_entities cm vin vehicle src) \<longleftrightarrow>
     (\<exists>field \<in> fst ` set (metrics_of cm (snd (snd src)) vin).
        field \<notin> explicit_fields (fst (snd src)) \<and>
        m = BydMetricSensor_init (active_coordinator (fst (snd src))) vin vehicle (fst src) field
              (fst (snd src)))"
  by (cases src) (simp add: Metric_in_dynamic_entities)

lemma Metric_in_setup_sources:
  "Metric m \<in> set (sensor_async_setup_entry cm data) \<longleftrightarrow>
     (\<exists>kv \<in> set (get_or_empty data ''vehicles''). \<exists>src \<in> set (sources data).
        Metric m \<in> set (dynamic_entities cm (fst kv) (snd kv) src))"
  unfolding set_sensor_async_setup_entry
  by (simp add: Metric_notin_explicit_entities)

lemma Metric_in_setup:
  "Metric m \<in> set (sensor_async_setup_entry cm data) \<longleftrightarrow>
     (\<exists>kv \<in> set (get_or_empty data ''vehicles'').
      \<exists>category \<in> {''vehicle'', ''realtime'', ''energy'', ''hvac'', ''charging''}.
      \<exists>field \<in> fst ` set (metrics_of cm (source_of data category) (fst kv)).
        field \<notin> explicit_fields category \<and>
        m = BydMetricSensor_init Coordinator (fst kv) (snd kv) category field category)"
proof -
  have "Metric m \<in> set (sensor_async_setup_entry cm data) \<longleftrightarrow>
     (\<exists>kv \<in> set (get_or_empty data ''vehicles'').
      \<exists>category \<in> {''vehicle'', ''realtime'', ''energy'', ''hvac'', ''charging''}.
      \<exists>field \<in> fst ` set (metrics_of cm (source_of data category) (fst kv)).
        field \<notin> explicit_fields category \<and>
        m = BydMetricSensor_init (active_coordinator category) (fst kv) (snd kv) category field
              category)"
    unfolding Metric_in_setup_sources set_sources Metric_in_dynamic_entities'
    by (simp only: bex_simps fst_conv snd_conv)
  also have "\<dots> \<longleftrightarrow>
     (\<exists>kv \<in> set (get_or_empty data ''vehicles'').
      \<exists>category \<in> {''vehicle'', ''realtime'', ''energy'', ''hvac'', ''charging''}.
      \<exists>field \<in> fst ` set (metrics_of cm (source_of data category) (fst kv)).
        field \<notin> explicit_fields category \<and>
        m = BydMetricSensor_init Coordinator (fst kv) (snd kv) category field category)"
    by (intro bex_cong refl) (simp only: active_coordinator_category)
  finally show ?thesis .
qed

lemma Telemetry_in_setup:
  "Telemetry t \<in> set (sensor_async_setup_entry cm data) \<longleftrightarrow>
     (\<exists>kv \<in> set (get_or_empty data ''vehicles'').
      \<exists>d \<in> set EXPLICIT_SENSORS. t = BydTelemetrySensor_init Coordinator (fst kv) (snd kv) d)"
proof -
  have ac: "d \<in> set EXPLICIT_SENSORS \<Longrightarrow> active_coordinator (desc_source_key d) = Coordinator" for d
    using explicit_source_key [of d] by (auto simp: active_coordinator_def)
  have dyn: "Telemetry t \<notin> set (dynamic_entities cm vin vehicle src)" for vin vehicle src
    by (cases src) (auto simp: dynamic_entities_def)
  have "Telemetry t \<in> set (explicit_entities vin vehicle) \<longleftrightarrow>
     (\<exists>d \<in> set EXPLICIT_SENSORS.
        t = BydTelemetrySensor_init (active_coordinator (desc_source_key d)) vin vehicle d)"
    for vin vehicle
    unfolding explicit_entities_def by (simp add: image_iff)
  also have "\<dots> vin vehicle \<longleftrightarrow>
     (\<exists>d \<in> set EXPLICIT_SENSORS. t = BydTelemetrySensor_init Coordinator vin vehicle d)"
    for vin vehicle
    by (intro bex_cong refl) (simp only: ac)
  finally have expl: "Telemetry t \<in> set (explicit_entities vin vehicle) \<longleftrightarrow>
     (\<exists>d \<in> set EXPLICIT_SENSORS. t = BydTelemetrySensor_init Coordinator vin vehicle d)"
    for vin vehicle .
  show ?thesis
    unfolding set_sensor_async_setup_entry by (simp add: dyn expl)
qed
lemma explicit_fields_realtime:
  "explicit_fields ''realtime'' =
     {''elec_percent'', ''endurance_mileage'', ''total_mileage'', ''speed'', ''temp_in_car'',
      ''left_front_tire_pressure'', ''right_front_tire_pressure'', ''left_rear_tire_pressure'',
      ''right_rear_tire_pressure''}"
  by (simp add: explicit_fields_def EXPLICIT_FIELDS_BY_SOURCE_def explicit_keys_of_def
        EXPLICIT_SENSORS_def)

text \<open>
  Claim C5. Sensor setup creates a \<open>BydMetricSensor\<close> with a given VIN, category and field
  exactly when the VIN is a key of the vehicle map, the category is one of the five
  sources, \<open>expand_metrics\<close> finds the field in the status object of that source and VIN,
  and the field is not in \<open>EXPLICIT_FIELDS_BY_SOURCE\<close> for that source, which holds the
  keys of the explicit sensor descriptions of the source. So no \<open>BydMetricSensor\<close> stands
  for an explicitly modelled field of its own category, while every vehicle gets a
  \<open>BydTelemetrySensor\<close> for every explicit description.
\<close>

theorem dynamic_sensor_iff_not_explicit:
  "((\<exists>m. Metric m \<in> set (sensor_async_setup_entry cm data) \<and>
          metric_vin m = vin \<and> metric_category m = category \<and> metric_field m = field) \<longleftrightarrow>
      vin \<in> fst ` set (get_or_empty data ''vehicles'') \<and>
      category \<in> {''vehicle'', ''realtime'', ''energy'', ''hvac'', ''charging''} \<and>
      field \<in> fst ` set (metrics_of cm (source_of data category) vin) \<and>
      field \<notin> explicit_fields category) \<and>
   explicit_fields category =
     desc_key ` {d \<in> set EXPLICIT_SENSORS. desc_source_key d = category} \<and>
   (\<forall>m. Metric m \<in> set (sensor_async_setup_entry cm data) \<longrightarrow>
      metric_source_key m = metric_category m \<and>
      metric_field m \<notin> explicit_fields (metric_category m)) \<and>
   (\<forall>(v, vehicle) \<in> set (get_or_empty data ''vehicles''). \<forall>d \<in> set EXPLICIT_SENSORS.
      Telemetry (BydTelemetrySensor_init Coordinator v vehicle d)
        \<in> set (sensor_async_setup_entry cm data))"
proof (intro conjI)
  show "(\<exists>m. Metric m \<in> set (sensor_async_setup_entry cm data) \<and>
          metric_vin m = vin \<and> metric_category m = category \<and> metric_field m = field) \<longleftrightarrow>
      vin \<in> fst ` set (get_or_empty data ''vehicles'') \<and>
      category \<in> {''vehicle'', ''realtime'', ''energy'', ''hvac'', ''charging''} \<and>
      field \<in> fst ` set (metrics_of cm (source_of data category) vin) \<and>
      field \<notin> explicit_fields category"
  proof -
    define C where "C = {''vehicle'', ''realtime'', ''energy'', ''hvac'', ''charging''}"
    note in_setup = Metric_in_setup [of _ cm data, folded C_def]
    have "(\<exists>m. Metric m \<in> set (sensor_async_setup_entry cm data) \<and>
            metric_vin m = vin \<and> metric_category m = category \<and> metric_field m = field) \<longleftrightarrow>
        vin \<in> fst ` set (get_or_empty data ''vehicles'') \<and>
        category \<in> C \<and>
        field \<in> fst ` set (metrics_of cm (source_of data category) vin) \<and>
        field \<notin> explicit_fields category" (is "?L \<longleftrightarrow> ?R")
    proof
      assume ?L
      then obtain m where m: "Metric m \<in> set (sensor_async_setup_entry cm data)"
        and eqs: "metric_vin m = vin" "metric_category m = category" "metric_field m = field"
        by blast
      from m obtain kv category' field'
        where kv: "kv \<in> set (get_or_empty data ''vehicles'')"
          and cat: "category' \<in> C"
          and f: "field' \<in> fst ` set (metrics_of cm (source_of data category') (fst kv))"
                 "field' \<notin> explicit_fields category'"
          and init: "m = BydMetricSensor_init Coordinator (fst kv) (snd kv) category' field' category'"
        unfolding in_setup by blast
      from init eqs have same: "fst kv = vin" "category' = category" "field' = field"
        by (simp_all add: BydMetricSensor_init_def)
      from kv same(1) have "vin \<in> fst ` set (get_or_empty data ''vehicles'')" by blast
      with cat f same show ?R by blast
    next
      assume r: ?R
      then obtain kv where kv: "kv \<in> set (get_or_empty data ''vehicles'')" and v: "fst kv = vin"
        by blast
      let ?m = "BydMetricSensor_init Coordinator (fst kv) (snd kv) category field category"
      from r have cat: "category \<in> C"
        and f: "field \<in> fst ` set (metrics_of cm (source_of data category) (fst kv))"
               "field \<notin> explicit_fields category"
        unfolding v by blast+
      have "Metric ?m \<in> set (sensor_async_setup_entry cm data)"
        unfolding in_setup
        by (rule bexI [OF _ kv], rule bexI [OF _ cat], rule bexI [OF _ f(1)], rule conjI [OF f(2) refl])
      moreover have "metric_vin ?m = vin \<and> metric_category ?m = category \<and> metric_field ?m = field"
        by (simp add: BydMetricSensor_init_def v)
      ultimately show ?L by blast
    qed
    then show ?thesis unfolding C_def .
  qed
next
  show "explicit_fields category =
     desc_key ` {d \<in> set EXPLICIT_SENSORS. desc_source_key d = category}"
    by (rule explicit_fields_eq)
next
  show "\<forall>m. Metric m \<in> set (sensor_async_setup_entry cm data) \<longrightarrow>
      metric_source_key m = metric_category m \<and>
      metric_field m \<notin> explicit_fields (metric_category m)"
  proof (intro allI impI)
    fix m assume "Metric m \<in> set (sensor_async_setup_entry cm data)"
    then obtain kv c f where "f \<notin> explicit_fields c"
      and "m = BydMetricSensor_init Coordinator (fst kv) (snd kv) c f c"
      unfolding Metric_in_setup by blast
    then show "metric_source_key m = metric_category m \<and>
      metric_field m \<notin> explicit_fields (metric_category m)"
      by (simp add: BydMetricSensor_init_def)
  qed
next
  show "\<forall>(v, vehicle) \<in> set (get_or_empty data ''vehicles''). \<forall>d \<in> set EXPLICIT_SENSORS.
      Telemetry (BydTelemetrySensor_init Coordinator v vehicle d)
        \<in> set (sensor_async_setup_entry cm data)"
  proof (intro ballI)
    fix kv assume kv: "kv \<in> set (get_or_empty data ''vehicles'')"
    have "\<forall>d \<in> set EXPLICIT_SENSORS.
            Telemetry (BydTelemetrySensor_init Coordinator (fst kv) (snd kv) d)
              \<in> set (sensor_async_setup_entry cm data)"
    proof
      fix d assume d: "d \<in> set EXPLICIT_SENSORS"
      show "Telemetry (BydTelemetrySensor_init Coordinator (fst kv) (snd kv) d)
              \<in> set (sensor_async_setup_entry cm data)"
        unfolding Telemetry_in_setup by (rule bexI [OF _ kv], rule bexI [OF _ d], rule refl)
    qed
    then show "case kv of (v, vehicle) \<Rightarrow> \<forall>d \<in> set EXPLICIT_SENSORS.
      Telemetry (BydTelemetrySensor_init Coordinator v vehicle d)
        \<in> set (sensor_async_setup_entry cm data)"
      by (simp add: split_def)
  qed
qed

text \<open>
  In the example snapshot the realtime data of \<open>LGX1\<close> has the fields \<open>elec_percent\<close>,
  which is explicit, and \<open>door_lock\<close>, which is not.
\<close>

theorem dynamic_sensor_iff_not_explicit_witness:
  "(\<exists>m. Metric m \<in> set (sensor_async_setup_entry example_module example_snapshot) \<and>
        metric_vin m = ''LGX1'' \<and> metric_category m = ''realtime'' \<and>
        metric_field m = ''door_lock'') \<and>
   \<not> (\<exists>m. Metric m \<in> set (sensor_async_setup_entry example_module example_snapshot) \<and>
        metric_vin m = ''LGX1'' \<and> metric_category m = ''realtime'' \<and>
        metric_field m = ''elec_percent'') \<and>
   Telemetry (BydTelemetrySensor_init Coordinator ''LGX1'' example_vehicle (hd EXPLICIT_SENSORS))
     \<in> set (sensor_async_setup_entry example_module example_snapshot)"
proof -
  have vs: "get_or_empty example_snapshot ''vehicles'' = [(''LGX1'', example_vehicle)]"
    by (simp add: example_snapshot_def get_or_empty_def)
  have v: "''LGX1'' \<in> fst ` set (get_or_empty example_snapshot ''vehicles'')"
    unfolding vs by simp
  have c: "''realtime'' \<in> {''vehicle'', ''realtime'', ''energy'', ''hvac'', ''charging''}"
    by simp
  have ms: "metrics_of example_module (source_of example_snapshot ''realtime'') ''LGX1'' =
              [(''elec_percent'', VInt 80), (''door_lock'', VInt 1)]"
    by (simp add: metrics_of_def source_of_def example_snapshot_def get_or_empty_def
          example_module_def)
  have f1: "''door_lock'' \<in> fst ` set (metrics_of example_module
                                       (source_of example_snapshot ''realtime'') ''LGX1'')"
    unfolding ms by simp
  have e1: "''door_lock'' \<notin> explicit_fields ''realtime''"
    unfolding explicit_fields_realtime by simp
  have e2: "''elec_percent'' \<in> explicit_fields ''realtime''"
    unfolding explicit_fields_realtime by simp
  have d: "hd EXPLICIT_SENSORS \<in> set EXPLICIT_SENSORS"
    by (simp add: EXPLICIT_SENSORS_def)
  note t1 = dynamic_sensor_iff_not_explicit
              [of example_module example_snapshot "''LGX1''" "''realtime''" "''door_lock''"]
  note t2 = dynamic_sensor_iff_not_explicit
              [of example_module example_snapshot "''LGX1''" "''realtime''" "''elec_percent''"]
  from t1 v c f1 e1
  have r1: "\<exists>m. Metric m \<in> set (sensor_async_setup_entry example_module example_snapshot) \<and>
        metric_vin m = ''LGX1'' \<and> metric_category m = ''realtime'' \<and>
        metric_field m = ''door_lock''"
    by (simp only: simp_thms)
  from t2 e2
  have r2: "\<not> (\<exists>m. Metric m \<in> set (sensor_async_setup_entry example_module example_snapshot) \<and>
        metric_vin m = ''LGX1'' \<and> metric_category m = ''realtime'' \<and>
        metric_field m = ''elec_percent'')"
    by (simp only: simp_thms)
  from t1 have "\<forall>(v, vehicle) \<in> set (get_or_empty example_snapshot ''vehicles'').
      \<forall>d \<in> set EXPLICIT_SENSORS.
      Telemetry (BydTelemetrySensor_init Coordinator v vehicle d)
        \<in> set (sensor_async_setup_entry example_module example_snapshot)"
    by (elim conjE)
  with d have r3: "Telemetry (BydTelemetrySensor_init Coordinator ''LGX1'' example_vehicle
                     (hd EXPLICIT_SENSORS))
     \<in> set (sensor_async_setup_entry example_module example_snapshot)"
    unfolding vs by simp
  from r1 r2 r3 show ?thesis by (simp only: simp_thms)
qed

section \<open>Unique ids\<close>

text \<open>
  Every \<open>unique_id\<close> is a VIN, an underscore and a suffix. When the VIN has no underscore
  it is the part of the id before the first underscore, and the suffix is what follows.
\<close>

lemma takeWhile_tag:
  assumes "CHR ''_'' \<notin> set a"
  shows "takeWhile (\<lambda>c. c \<noteq> CHR ''_'') (a @ CHR ''_'' # s) = a"
proof -
  have "takeWhile (\<lambda>c. c \<noteq> CHR ''_'') (a @ CHR ''_'' # s) = takeWhile (\<lambda>c. c \<noteq> CHR ''_'') a"
    by (rule takeWhile_tail) simp
  also from assms have "\<dots> = a" by (simp add: takeWhile_eq_all_conv) blast
  finally show ?thesis .
qed

lemma tag_inj:
  assumes "CHR ''_'' \<notin> set a" and "CHR ''_'' \<notin> set b"
    and eq: "a @ CHR ''_'' # s = b @ CHR ''_'' # t"
  shows "a = b \<and> s = t"
proof -
  have "takeWhile (\<lambda>c. c \<noteq> CHR ''_'') (a @ CHR ''_'' # s) =
        takeWhile (\<lambda>c. c \<noteq> CHR ''_'') (b @ CHR ''_'' # t)"
    by (simp only: eq)
  with assms(1,2) have "a = b" by (simp add: takeWhile_tag)
  with eq show ?thesis by simp
qed

lemma in_tagged:
  "x \<in> set (concat (map (\<lambda>y. map (\<lambda>s. tag y @ CHR ''_'' # s) (sfx y)) ys)) \<longleftrightarrow>
     (\<exists>y \<in> set ys. \<exists>s \<in> set (sfx y). x = tag y @ CHR ''_'' # s)"
  by auto

lemma distinct_tagged:
  assumes "distinct (map tag ys)"
    and "\<forall>y \<in> set ys. CHR ''_'' \<notin> set (tag y)"
    and "\<forall>y \<in> set ys. distinct (sfx y)"
  shows "distinct (concat (map (\<lambda>y. map (\<lambda>s. tag y @ CHR ''_'' # s) (sfx y)) ys))"
  using assms
proof (induction ys)
  case Nil
  then show ?case by simp
next
  case (Cons y ys)
  have here: "distinct (map (\<lambda>s. tag y @ CHR ''_'' # s) (sfx y))"
    using Cons.prems(3) by (simp add: distinct_map inj_on_def)
  have rest: "distinct (concat (map (\<lambda>y. map (\<lambda>s. tag y @ CHR ''_'' # s) (sfx y)) ys))"
    using Cons.prems by (intro Cons.IH) simp_all
  have disj: "set (map (\<lambda>s. tag y @ CHR ''_'' # s) (sfx y)) \<inter>
              set (concat (map (\<lambda>y. map (\<lambda>s. tag y @ CHR ''_'' # s) (sfx y)) ys)) = {}"
  proof (rule ccontr)
    assume "set (map (\<lambda>s. tag y @ CHR ''_'' # s) (sfx y)) \<inter>
              set (concat (map (\<lambda>y. map (\<lambda>s. tag y @ CHR ''_'' # s) (sfx y)) ys)) \<noteq> {}"
    then obtain x where x1: "x \<in> set (map (\<lambda>s. tag y @ CHR ''_'' # s) (sfx y))"
      and x2: "x \<in> set (concat (map (\<lambda>y. map (\<lambda>s. tag y @ CHR ''_'' # s) (sfx y)) ys))"
      by blast
    from x1 obtain s where s: "x = tag y @ CHR ''_'' # s" by auto
    from x2 obtain y' s' where y': "y' \<in> set ys" and s': "x = tag y' @ CHR ''_'' # s'"
      unfolding in_tagged by blast
    from Cons.prems(2) y' have "CHR ''_'' \<notin> set (tag y)" "CHR ''_'' \<notin> set (tag y')" by simp_all
    with s s' have "tag y = tag y'" using tag_inj by metis
    with y' Cons.prems(1) show False by force
  qed
  from here rest disj show ?case by simp
qed

lemma tagged_disjoint:
  assumes "distinct (map tag ys)"
    and "\<forall>y \<in> set ys. CHR ''_'' \<notin> set (tag y)"
    and "\<forall>y \<in> set ys. set (sfx1 y) \<inter> set (sfx2 y) = {}"
  shows "set (concat (map (\<lambda>y. map (\<lambda>s. tag y @ CHR ''_'' # s) (sfx1 y)) ys)) \<inter>
         set (concat (map (\<lambda>y. map (\<lambda>s. tag y @ CHR ''_'' # s) (sfx2 y)) ys)) = {}"
proof (rule ccontr)
  assume "set (concat (map (\<lambda>y. map (\<lambda>s. tag y @ CHR ''_'' # s) (sfx1 y)) ys)) \<inter>
         set (concat (map (\<lambda>y. map (\<lambda>s. tag y @ CHR ''_'' # s) (sfx2 y)) ys)) \<noteq> {}"
  then obtain x where x1: "x \<in> set (concat (map (\<lambda>y. map (\<lambda>s. tag y @ CHR ''_'' # s) (sfx1 y)) ys))"
    and x2: "x \<in> set (concat (map (\<lambda>y. map (\<lambda>s. tag y @ CHR ''_'' # s) (sfx2 y)) ys))"
    by blast
  from x1 obtain y1 s1 where y1: "y1 \<in> set ys" "s1 \<in> set (sfx1 y1)" "x = tag y1 @ CHR ''_'' # s1"
    unfolding in_tagged by blast
  from x2 obtain y2 s2 where y2: "y2 \<in> set ys" "s2 \<in> set (sfx2 y2)" "x = tag y2 @ CHR ''_'' # s2"
    unfolding in_tagged by blast
  from assms(2) y1(1) y2(1) have "CHR ''_'' \<notin> set (tag y1)" "CHR ''_'' \<notin> set (tag y2)" by simp_all
  with y1(3) y2(3) have same: "tag y1 = tag y2" "s1 = s2" using tag_inj by metis+
  from assms(1) have "inj_on tag (set ys)" by (simp add: distinct_map)
  with same(1) y1(1) y2(1) have "y1 = y2" by (simp add: inj_on_def)
  with y1(2) y2(2) same(2) have "s1 \<in> set (sfx1 y1) \<inter> set (sfx2 y1)" by simp
  with assms(3) y1(1) show False by blast
qed

lemma climate_ids_tagged:
  "map climate_unique_id (climate_async_setup_entry data) =
     concat (map (\<lambda>kv. map (\<lambda>s. fst kv @ CHR ''_'' # s) [''climate''])
               (get_or_empty data ''vehicles''))"
proof -
  have "map climate_unique_id (map (\<lambda>(vin, vehicle). BydClimate_init vin vehicle) vs) =
          concat (map (\<lambda>kv. map (\<lambda>s. fst kv @ CHR ''_'' # s) [''climate'']) vs)"
    for vs :: "status dict"
    by (induction vs) (auto simp: BydClimate_init_def)
  then show ?thesis by (simp add: climate_async_setup_entry_def)
qed

lemma switch_ids_tagged:
  "map switch_unique_id (switch_async_setup_entry data) =
     concat (map (\<lambda>kv. map (\<lambda>s. fst kv @ CHR ''_'' # s)
                         [''flash_lights'', ''honk_horn'', ''open_trunk'', ''close_windows''])
               (get_or_empty data ''vehicles''))"
proof -
  have "map switch_unique_id (concat (map (\<lambda>(vin, vehicle).
        [ BydMomentarySwitch_init vin vehicle ''flash_lights'',
          BydMomentarySwitch_init vin vehicle ''honk_horn'',
          BydMomentarySwitch_init vin vehicle ''open_trunk'',
          BydMomentarySwitch_init vin vehicle ''close_windows'' ]) vs)) =
        concat (map (\<lambda>kv. map (\<lambda>s. fst kv @ CHR ''_'' # s)
                         [''flash_lights'', ''honk_horn'', ''open_trunk'', ''close_windows'']) vs)"
    for vs :: "status dict"
    by (induction vs) (auto simp: BydMomentarySwitch_init_def)
  then show ?thesis by (simp add: switch_async_setup_entry_def)
qed

lemma explicit_ids:
  "map sensor_unique_id (explicit_entities vin vehicle) =
     map (\<lambda>s. vin @ CHR ''_'' # s)
       (map (\<lambda>d. desc_source_key d @ CHR ''_'' # desc_key d) EXPLICIT_SENSORS)"
  by (simp add: explicit_entities_def sensor_unique_id_def BydTelemetrySensor_init_def)

lemma dynamic_ids:
  "map sensor_unique_id (dynamic_entities cm vin vehicle src) =
     map (\<lambda>s. vin @ CHR ''_'' # s)
       (map (\<lambda>f. fst src @ CHR ''_'' # f)
          (filter (\<lambda>f. f \<notin> explicit_fields (fst (snd src)))
             (map fst (metrics_of cm (snd (snd src)) vin))))"
  by (cases src) (simp add: dynamic_entities_def sensor_unique_id_def BydMetricSensor_init_def)

lemma dynamic_ids_concat:
  "map sensor_unique_id (concat (map (dynamic_entities cm vin vehicle) srcs)) =
     map (\<lambda>s. vin @ CHR ''_'' # s)
       (concat (map (\<lambda>src. map (\<lambda>f. fst src @ CHR ''_'' # f)
          (filter (\<lambda>f. f \<notin> explicit_fields (fst (snd src)))
             (map fst (metrics_of cm (snd (snd src)) vin)))) srcs))"
  by (induction srcs) (simp_all add: dynamic_ids)

lemma sensor_ids_tagged:
  "map sensor_unique_id (sensor_async_setup_entry cm data) =
     concat (map (\<lambda>kv. map (\<lambda>s. fst kv @ CHR ''_'' # s)
       (map (\<lambda>d. desc_source_key d @ CHR ''_'' # desc_key d) EXPLICIT_SENSORS @
        concat (map (\<lambda>src. map (\<lambda>f. fst src @ CHR ''_'' # f)
          (filter (\<lambda>f. f \<notin> explicit_fields (fst (snd src)))
             (map fst (metrics_of cm (snd (snd src)) (fst kv))))) (sources data))))
       (get_or_empty data ''vehicles''))"
proof -
  have "map sensor_unique_id (concat (map (\<lambda>(vin, vehicle).
          explicit_entities vin vehicle @
          concat (map (dynamic_entities cm vin vehicle) srcs)) vs)) =
        concat (map (\<lambda>kv. map (\<lambda>s. fst kv @ CHR ''_'' # s)
          (map (\<lambda>d. desc_source_key d @ CHR ''_'' # desc_key d) EXPLICIT_SENSORS @
           concat (map (\<lambda>src. map (\<lambda>f. fst src @ CHR ''_'' # f)
             (filter (\<lambda>f. f \<notin> explicit_fields (fst (snd src)))
                (map fst (metrics_of cm (snd (snd src)) (fst kv))))) srcs))) vs)"
    for vs :: "status dict" and srcs
  proof (induction vs)
    case Nil
    then show ?case by simp
  next
    case (Cons kv vs)
    obtain vin vehicle where kv: "kv = (vin, vehicle)" by (cases kv)
    show ?case
      unfolding kv using Cons.IH
      by (simp only: list.map concat.simps map_append split_conv fst_conv
            explicit_ids dynamic_ids_concat)
  qed
  then show ?thesis by (simp only: sensor_async_setup_entry_def)
qed

lemma explicit_suffixes:
  "map (\<lambda>d. desc_source_key d @ CHR ''_'' # desc_key d) EXPLICIT_SENSORS =
     [''realtime_elec_percent'', ''realtime_endurance_mileage'', ''realtime_total_mileage'',
      ''realtime_speed'', ''realtime_temp_in_car'', ''realtime_left_front_tire_pressure'',
      ''realtime_right_front_tire_pressure'', ''realtime_left_rear_tire_pressure'',
      ''realtime_right_rear_tire_pressure'', ''energy_total_energy'',
      ''energy_avg_energy_consumption'', ''energy_electricity_consumption'',
      ''energy_fuel_consumption'', ''charging_soc'', ''charging_charging_state'',
      ''charging_connect_state'', ''hvac_ac_switch'', ''hvac_temp_out_car'']"
  by (simp add: EXPLICIT_SENSORS_def)

lemma distinct_explicit_suffixes:
  "distinct (map (\<lambda>d. desc_source_key d @ CHR ''_'' # desc_key d) EXPLICIT_SENSORS)"
  unfolding explicit_suffixes by simp

lemma source_tags:
  "map fst (sources data) = [''vehicle'', ''realtime'', ''energy'', ''hvac'', ''charging'']"
  by (simp add: sources_def)

lemma source_tag_no_underscore:
  assumes "src \<in> set (sources data)"
  shows "CHR ''_'' \<notin> set (fst src)"
proof -
  from assms have "fst src \<in> set (map fst (sources data))" by simp
  then show ?thesis unfolding source_tags by auto
qed

lemma explicit_source_no_underscore:
  assumes "d \<in> set EXPLICIT_SENSORS"
  shows "CHR ''_'' \<notin> set (desc_source_key d)"
  using explicit_source_key [OF assms] by auto

lemma source_shape:
  assumes "src \<in> set (sources data)"
  shows "fst (snd src) = fst src"
  using assms by (auto simp: sources_def)

lemma dynamic_suffix_shape:
  assumes "x \<in> set (concat (map (\<lambda>src. map (\<lambda>f. fst src @ CHR ''_'' # f)
              (filter (\<lambda>f. f \<notin> explicit_fields (fst (snd src)))
                 (map fst (metrics_of cm (snd (snd src)) vin)))) (sources data)))"
  shows "\<exists>c f. c \<in> set [''vehicle'', ''realtime'', ''energy'', ''hvac'', ''charging''] \<and>
               f \<notin> explicit_fields c \<and> x = c @ CHR ''_'' # f \<and>
               takeWhile (\<lambda>c. c \<noteq> CHR ''_'') x = c"
proof -
  from assms obtain src f where src: "src \<in> set (sources data)"
    and f: "f \<in> set (filter (\<lambda>f. f \<notin> explicit_fields (fst (snd src)))
                 (map fst (metrics_of cm (snd (snd src)) vin)))"
    and x: "x = fst src @ CHR ''_'' # f"
    unfolding in_tagged by blast
  from src have "fst src \<in> set (map fst (sources data))" by simp
  then have c: "fst src \<in> set [''vehicle'', ''realtime'', ''energy'', ''hvac'', ''charging'']"
    by (simp only: source_tags)
  from f source_shape [OF src] have nf: "f \<notin> explicit_fields (fst src)" by simp
  have "takeWhile (\<lambda>c. c \<noteq> CHR ''_'') x = fst src"
    unfolding x by (rule takeWhile_tag [OF source_tag_no_underscore [OF src]])
  with c nf x show ?thesis by blast
qed

lemma fixed_suffix_not_dynamic:
  assumes "x \<in> set (concat (map (\<lambda>src. map (\<lambda>f. fst src @ CHR ''_'' # f)
              (filter (\<lambda>f. f \<notin> explicit_fields (fst (snd src)))
                 (map fst (metrics_of cm (snd (snd src)) vin)))) (sources data)))"
  shows "x \<notin> set [''climate'', ''flash_lights'', ''honk_horn'', ''open_trunk'', ''close_windows'']"
proof
  assume fixed: "x \<in> set [''climate'', ''flash_lights'', ''honk_horn'', ''open_trunk'', ''close_windows'']"
  from dynamic_suffix_shape [OF assms] obtain c
    where c: "c \<in> set [''vehicle'', ''realtime'', ''energy'', ''hvac'', ''charging'']"
      and t: "takeWhile (\<lambda>c. c \<noteq> CHR ''_'') x = c" by blast
  from fixed have "takeWhile (\<lambda>c. c \<noteq> CHR ''_'') x
                     \<in> set [''climate'', ''flash'', ''honk'', ''open'', ''close'']"
    by auto
  with t have "c \<in> set [''climate'', ''flash'', ''honk'', ''open'', ''close'']" by simp
  with c show False by auto
qed

lemma explicit_suffix_not_dynamic:
  assumes "x \<in> set (concat (map (\<lambda>src. map (\<lambda>f. fst src @ CHR ''_'' # f)
              (filter (\<lambda>f. f \<notin> explicit_fields (fst (snd src)))
                 (map fst (metrics_of cm (snd (snd src)) vin)))) (sources data)))"
  shows "x \<notin> set (map (\<lambda>d. desc_source_key d @ CHR ''_'' # desc_key d) EXPLICIT_SENSORS)"
proof
  assume "x \<in> set (map (\<lambda>d. desc_source_key d @ CHR ''_'' # desc_key d) EXPLICIT_SENSORS)"
  then obtain d where d: "d \<in> set EXPLICIT_SENSORS"
    and xd: "x = desc_source_key d @ CHR ''_'' # desc_key d" by auto
  from dynamic_suffix_shape [OF assms] obtain c f
    where c: "c \<in> set [''vehicle'', ''realtime'', ''energy'', ''hvac'', ''charging'']"
      and nf: "f \<notin> explicit_fields c" and xc: "x = c @ CHR ''_'' # f" by blast
  from c have "CHR ''_'' \<notin> set c" by auto
  with explicit_source_no_underscore [OF d] xd xc
  have "desc_source_key d = c \<and> desc_key d = f" by (intro tag_inj) simp_all
  with d have "f \<in> desc_key ` {d \<in> set EXPLICIT_SENSORS. desc_source_key d = c}" by blast
  then have "f \<in> explicit_fields c" by (simp only: explicit_fields_eq)
  with nf show False by contradiction
qed

lemma distinct_dynamic_suffixes:
  assumes "\<forall>src \<in> set (sources data). distinct (map fst (metrics_of cm (snd (snd src)) vin))"
  shows "distinct (concat (map (\<lambda>src. map (\<lambda>f. fst src @ CHR ''_'' # f)
              (filter (\<lambda>f. f \<notin> explicit_fields (fst (snd src)))
                 (map fst (metrics_of cm (snd (snd src)) vin)))) (sources data)))"
proof (rule distinct_tagged)
  show "distinct (map fst (sources data))" unfolding source_tags by simp
  show "\<forall>src \<in> set (sources data). CHR ''_'' \<notin> set (fst src)"
    using source_tag_no_underscore by blast
  show "\<forall>src \<in> set (sources data). distinct (filter (\<lambda>f. f \<notin> explicit_fields (fst (snd src)))
                 (map fst (metrics_of cm (snd (snd src)) vin)))"
    using assms by simp
qed

lemma distinct_vehicle_suffixes:
  assumes "\<forall>src \<in> set (sources data). distinct (map fst (metrics_of cm (snd (snd src)) vin))"
  shows "distinct
    ([''climate''] @ [''flash_lights'', ''honk_horn'', ''open_trunk'', ''close_windows''] @
     map (\<lambda>d. desc_source_key d @ CHR ''_'' # desc_key d) EXPLICIT_SENSORS @
     concat (map (\<lambda>src. map (\<lambda>f. fst src @ CHR ''_'' # f)
              (filter (\<lambda>f. f \<notin> explicit_fields (fst (snd src)))
                 (map fst (metrics_of cm (snd (snd src)) vin)))) (sources data)))"
proof -
  let ?D = "concat (map (\<lambda>src. map (\<lambda>f. fst src @ CHR ''_'' # f)
              (filter (\<lambda>f. f \<notin> explicit_fields (fst (snd src)))
                 (map fst (metrics_of cm (snd (snd src)) vin)))) (sources data))"
  let ?E = "map (\<lambda>d. desc_source_key d @ CHR ''_'' # desc_key d) EXPLICIT_SENSORS"
  let ?F = "[''climate'', ''flash_lights'', ''honk_horn'', ''open_trunk'', ''close_windows'']"
  have fixed: "distinct (?F @ ?E)"
    unfolding explicit_suffixes by simp
  have dyn: "distinct ?D" by (rule distinct_dynamic_suffixes [OF assms])
  have "set (?F @ ?E) \<inter> set ?D = {}"
    using fixed_suffix_not_dynamic [of _ cm vin data] explicit_suffix_not_dynamic [of _ cm vin data]
    by (simp only: set_append) blast
  with fixed dyn have "distinct ((?F @ ?E) @ ?D)" by (simp only: distinct_append simp_thms)
  then show ?thesis by simp
qed

lemma distinct_three:
  assumes "distinct (a @ b @ c)"
  shows "distinct c" and "set a \<inter> set b = {}" and "set a \<inter> set c = {}"
    and "set b \<inter> set c = {}"
  using assms by auto

lemma distinct_three_append:
  assumes "distinct a" and "distinct b" and "distinct c"
    and "set a \<inter> set b = {}" and "set a \<inter> set c = {}" and "set b \<inter> set c = {}"
  shows "distinct (a @ b @ c)"
  using assms by auto

lemma shared_element_not_distinct:
  assumes "x \<in> set a" and "x \<in> set c"
  shows "\<not> distinct (a @ b @ c)"
  using assms by auto

text \<open>
  Claim C8, as amended. In a setup pass over a snapshot whose vehicle map has distinct
  VINs, none of which contains an underscore, and where \<open>expand_metrics\<close> yields each field
  of a status object once (its result is a dictionary), the \<open>unique_id\<close>s of all entities
  of the climate, switch and sensor platforms are pairwise distinct. The ids are
  \<open>{vin}_climate\<close>, \<open>{vin}_{command}\<close>, \<open>{vin}_{source_key}_{key}\<close> for explicit sensors and
  \<open>{vin}_{category}_{field}\<close> for discovered ones.
\<close>

theorem unique_ids_distinct:
  assumes keys: "distinct (map fst (get_or_empty data ''vehicles''))"
    and vins: "\<forall>vin \<in> fst ` set (get_or_empty data ''vehicles''). CHR ''_'' \<notin> set vin"
    and fields: "\<forall>vin \<in> fst ` set (get_or_empty data ''vehicles'').
                 \<forall>category \<in> {''vehicle'', ''realtime'', ''energy'', ''hvac'', ''charging''}.
                   distinct (map fst (metrics_of cm (source_of data category) vin))"
  shows "distinct (all_unique_ids cm data) \<and>
         (\<forall>vin vehicle. climate_unique_id (BydClimate_init vin vehicle) = vin @ ''_climate'') \<and>
         (\<forall>vin vehicle command.
            switch_unique_id (BydMomentarySwitch_init vin vehicle command) = vin @ ''_'' @ command) \<and>
         (\<forall>c vin vehicle d.
            telemetry_unique_id (BydTelemetrySensor_init c vin vehicle d) =
              vin @ ''_'' @ desc_source_key d @ ''_'' @ desc_key d) \<and>
         (\<forall>c vin vehicle category field source_key.
            metric_unique_id (BydMetricSensor_init c vin vehicle category field source_key) =
              vin @ ''_'' @ category @ ''_'' @ field)"
proof (intro conjI)
  let ?vs = "get_or_empty data ''vehicles''"
  let ?F1 = "\<lambda>kv :: string \<times> status. [''climate'']"
  let ?F2 = "\<lambda>kv :: string \<times> status.
               [''flash_lights'', ''honk_horn'', ''open_trunk'', ''close_windows'']"
  let ?S = "\<lambda>kv :: string \<times> status.
       map (\<lambda>d. desc_source_key d @ CHR ''_'' # desc_key d) EXPLICIT_SENSORS @
        concat (map (\<lambda>src. map (\<lambda>f. fst src @ CHR ''_'' # f)
          (filter (\<lambda>f. f \<notin> explicit_fields (fst (snd src)))
             (map fst (metrics_of cm (snd (snd src)) (fst kv))))) (sources data))"
  have tags: "\<forall>kv \<in> set ?vs. CHR ''_'' \<notin> set (fst kv)"
    using vins by simp
  have all: "distinct (?F1 kv @ ?F2 kv @ ?S kv)" if kv: "kv \<in> set ?vs" for kv
  proof -
    from kv have "fst kv \<in> fst ` set ?vs" by simp
    with fields
    have "\<forall>category \<in> {''vehicle'', ''realtime'', ''energy'', ''hvac'', ''charging''}.
            distinct (map fst (metrics_of cm (source_of data category) (fst kv)))"
      by (rule bspec)
    then have "\<forall>src \<in> set (sources data).
                 distinct (map fst (metrics_of cm (snd (snd src)) (fst kv)))"
      unfolding set_sources by (simp only: ball_simps snd_conv)
    then show ?thesis by (rule distinct_vehicle_suffixes)
  qed
  have d1: "distinct (concat (map (\<lambda>kv. map (\<lambda>s. fst kv @ CHR ''_'' # s) (?F1 kv)) ?vs))"
    by (rule distinct_tagged [OF keys tags]) simp
  have d2: "distinct (concat (map (\<lambda>kv. map (\<lambda>s. fst kv @ CHR ''_'' # s) (?F2 kv)) ?vs))"
    by (rule distinct_tagged [OF keys tags]) simp
  have d3: "distinct (concat (map (\<lambda>kv. map (\<lambda>s. fst kv @ CHR ''_'' # s) (?S kv)) ?vs))"
  proof (rule distinct_tagged [OF keys tags], rule ballI)
    fix kv assume "kv \<in> set ?vs"
    from all [OF this] show "distinct (?S kv)" by (rule distinct_three(1))
  qed
  have i12: "set (concat (map (\<lambda>kv. map (\<lambda>s. fst kv @ CHR ''_'' # s) (?F1 kv)) ?vs)) \<inter>
             set (concat (map (\<lambda>kv. map (\<lambda>s. fst kv @ CHR ''_'' # s) (?F2 kv)) ?vs)) = {}"
    by (rule tagged_disjoint [OF keys tags]) simp
  have i13: "set (concat (map (\<lambda>kv. map (\<lambda>s. fst kv @ CHR ''_'' # s) (?F1 kv)) ?vs)) \<inter>
             set (concat (map (\<lambda>kv. map (\<lambda>s. fst kv @ CHR ''_'' # s) (?S kv)) ?vs)) = {}"
  proof (rule tagged_disjoint [OF keys tags], rule ballI)
    fix kv assume "kv \<in> set ?vs"
    from all [OF this] show "set (?F1 kv) \<inter> set (?S kv) = {}"
      by (rule distinct_three(3))
  qed
  have i23: "set (concat (map (\<lambda>kv. map (\<lambda>s. fst kv @ CHR ''_'' # s) (?F2 kv)) ?vs)) \<inter>
             set (concat (map (\<lambda>kv. map (\<lambda>s. fst kv @ CHR ''_'' # s) (?S kv)) ?vs)) = {}"
  proof (rule tagged_disjoint [OF keys tags], rule ballI)
    fix kv assume "kv \<in> set ?vs"
    from all [OF this] show "set (?F2 kv) \<inter> set (?S kv) = {}"
      by (rule distinct_three(4))
  qed
  from d1 d2 d3 i12 i13 i23
  have "distinct
     (concat (map (\<lambda>kv. map (\<lambda>s. fst kv @ CHR ''_'' # s) (?F1 kv)) ?vs) @
      concat (map (\<lambda>kv. map (\<lambda>s. fst kv @ CHR ''_'' # s) (?F2 kv)) ?vs) @
      concat (map (\<lambda>kv. map (\<lambda>s. fst kv @ CHR ''_'' # s) (?S kv)) ?vs))"
    by (rule distinct_three_append)
  then show "distinct (all_unique_ids cm data)"
    by (simp only: all_unique_ids_def climate_ids_tagged switch_ids_tagged sensor_ids_tagged)
next
  show "\<forall>vin vehicle. climate_unique_id (BydClimate_init vin vehicle) = vin @ ''_climate''"
    by (simp add: BydClimate_init_def)
next
  show "\<forall>vin vehicle command.
          switch_unique_id (BydMomentarySwitch_init vin vehicle command) = vin @ ''_'' @ command"
    by (simp add: BydMomentarySwitch_init_def)
next
  show "\<forall>c vin vehicle d.
          telemetry_unique_id (BydTelemetrySensor_init c vin vehicle d) =
            vin @ ''_'' @ desc_source_key d @ ''_'' @ desc_key d"
    by (simp add: BydTelemetrySensor_init_def)
next
  show "\<forall>c vin vehicle category field source_key.
          metric_unique_id (BydMetricSensor_init c vin vehicle category field source_key) =
            vin @ ''_'' @ category @ ''_'' @ field"
    by (simp add: BydMetricSensor_init_def)
qed

text \<open>The example snapshot meets the conditions, and its ids are distinct.\<close>

theorem unique_ids_distinct_witness:
  "distinct (all_unique_ids example_module example_snapshot)"
proof -
  have vs: "get_or_empty example_snapshot ''vehicles'' = [(''LGX1'', example_vehicle)]"
    by (simp add: example_snapshot_def get_or_empty_def)
  have keys: "distinct (map fst (get_or_empty example_snapshot ''vehicles''))"
    unfolding vs by simp
  have vins: "\<forall>vin \<in> fst ` set (get_or_empty example_snapshot ''vehicles''). CHR ''_'' \<notin> set vin"
    unfolding vs by simp
  have fields: "\<forall>vin \<in> fst ` set (get_or_empty example_snapshot ''vehicles'').
                 \<forall>category \<in> {''vehicle'', ''realtime'', ''energy'', ''hvac'', ''charging''}.
                   distinct (map fst (metrics_of example_module
                                        (source_of example_snapshot category) vin))"
    unfolding vs
    by (simp add: metrics_of_def source_of_def example_snapshot_def get_or_empty_def
          example_module_def example_vehicle_def)
  from unique_ids_distinct [OF keys vins fields] show ?thesis by (rule conjunct1)
qed

text \<open>
  Claim C8, as stated, asks for distinct VINs only, and fails: with the VINs \<open>A\<close> and
  \<open>A_hvac\<close> and a field \<open>climate\<close> discovered in the \<open>hvac\<close> status of \<open>A\<close>, the climate entity
  of \<open>A_hvac\<close> and the discovered sensor of \<open>A\<close> both get the id \<open>A_hvac_climate\<close>.
\<close>

theorem unique_ids_collide_with_underscore_vin:
  "distinct (map fst (get_or_empty underscore_snapshot ''vehicles'')) \<and>
   \<not> distinct (all_unique_ids example_module underscore_snapshot)"
proof
  show "distinct (map fst (get_or_empty underscore_snapshot ''vehicles''))"
    by (simp add: underscore_snapshot_def get_or_empty_def)
next
  have vs: "get_or_empty underscore_snapshot ''vehicles'' =
              [(''A'', example_vehicle), (''A_hvac'', example_vehicle)]"
    by (simp add: underscore_snapshot_def get_or_empty_def)
  have c: "''A_hvac_climate'' \<in>
             set (map climate_unique_id (climate_async_setup_entry underscore_snapshot))"
    by (simp add: climate_async_setup_entry_def vs BydClimate_init_def)
  let ?m = "BydMetricSensor_init Coordinator ''A'' example_vehicle ''hvac'' ''climate'' ''hvac''"
  have ms: "metrics_of example_module (source_of underscore_snapshot ''hvac'') ''A'' =
              [(''climate'', VInt 1)]"
    by (simp add: metrics_of_def source_of_def underscore_snapshot_def get_or_empty_def
          example_module_def)
  have kv: "(''A'', example_vehicle) \<in> set (get_or_empty underscore_snapshot ''vehicles'')"
    unfolding vs by simp
  have cat: "''hvac'' \<in> {''vehicle'', ''realtime'', ''energy'', ''hvac'', ''charging''}"
    by simp
  have f: "''climate'' \<in> fst ` set (metrics_of example_module
                                       (source_of underscore_snapshot ''hvac'') (fst (''A'', example_vehicle)))"
    unfolding ms fst_conv by simp
  have nf: "''climate'' \<notin> explicit_fields ''hvac''"
    by (simp add: explicit_fields_def EXPLICIT_FIELDS_BY_SOURCE_def explicit_keys_of_def
          EXPLICIT_SENSORS_def)
  have "Metric ?m \<in> set (sensor_async_setup_entry example_module underscore_snapshot)"
    unfolding Metric_in_setup
  proof (rule bexI [OF _ kv], rule bexI [OF _ cat], rule bexI [OF _ f], rule conjI [OF nf])
    show "?m = BydMetricSensor_init Coordinator (fst (''A'', example_vehicle))
                 (snd (''A'', example_vehicle)) ''hvac'' ''climate'' ''hvac''"
      by (simp only: fst_conv snd_conv)
  qed
  then have "sensor_unique_id (Metric ?m) \<in>
               sensor_unique_id ` set (sensor_async_setup_entry example_module underscore_snapshot)"
    by (rule imageI)
  moreover have "sensor_unique_id (Metric ?m) = ''A_hvac_climate''"
    by (simp add: sensor_unique_id_def BydMetricSensor_init_def)
  ultimately
  have s: "''A_hvac_climate'' \<in>
             set (map sensor_unique_id (sensor_async_setup_entry example_module underscore_snapshot))"
    by (simp only: set_map)
  from c s show "\<not> distinct (all_unique_ids example_module underscore_snapshot)"
    unfolding all_unique_ids_def by (rule shared_element_not_distinct)
qed

end
